theory Spec2Isabelle
  imports Complex_Main
begin

section \<open>Values, errors and Python's container operations\<close>

text \<open>
  The values that travel through the provider's JSON arrays: null, an integer, a number
  written with a fraction or an exponent (a Python float, kept as the real number it
  denotes) and a string.
\<close>

datatype jval = JNull | JInt int | JNum real | JStr string

text \<open>
  The exceptions that the modelled code can raise, as values. A function that can raise
  returns \<open>py_error + 'a\<close>, with \<open>Inl\<close> the exception.
\<close>

datatype py_error =
    KeyError string
  | IndexError
  | RequestException string
  | PyException string
  | MultipleObjectsReturned
  | DoesNotExist
  | ValidationError string
  | ValidationErrors "string list"

type_synonym 'a result = "py_error + 'a"

definition rbind :: "'a result \<Rightarrow> ('a \<Rightarrow> 'b result) \<Rightarrow> 'b result" where
  "rbind r f = (case r of Inl e \<Rightarrow> Inl e | Inr x \<Rightarrow> f x)"

text \<open>\<^verbatim>\<open>d.get(k)\<close> on a dictionary of values: None (null) when the key is missing.\<close>

definition dict_get :: "(string \<rightharpoonup> jval) \<Rightarrow> string \<Rightarrow> jval" where
  "dict_get d k = (case d k of None \<Rightarrow> JNull | Some v \<Rightarrow> v)"

text \<open>\<^verbatim>\<open>d.get(k, default)\<close>.\<close>

definition dict_get_or :: "(string \<rightharpoonup> 'a) \<Rightarrow> string \<Rightarrow> 'a \<Rightarrow> 'a" where
  "dict_get_or d k dflt = (case d k of None \<Rightarrow> dflt | Some v \<Rightarrow> v)"

text \<open>\<^verbatim>\<open>d[k]\<close>: KeyError when the key is missing.\<close>

definition subscript :: "(string \<rightharpoonup> 'a) \<Rightarrow> string \<Rightarrow> 'a result" where
  "subscript d k = (case d k of None \<Rightarrow> Inl (KeyError k) | Some v \<Rightarrow> Inr v)"

text \<open>\<^verbatim>\<open>xs[i]\<close> for an index produced by \<^verbatim>\<open>range\<close> (never negative): IndexError out of range.\<close>

definition list_index :: "'a list \<Rightarrow> nat \<Rightarrow> 'a result" where
  "list_index xs i = (if i < length xs then Inr (xs ! i) else Inl IndexError)"

text \<open>
  \<^verbatim>\<open>for i in range(...): out.append(f(i))\<close>: the items are appended in order, and the
  first exception ends the loop.
\<close>

fun for_append :: "(nat \<Rightarrow> 'a result) \<Rightarrow> nat list \<Rightarrow> 'a list \<Rightarrow> 'a list result" where
  "for_append f [] acc = Inr acc"
| "for_append f (i # is) acc =
     (case f i of Inl e \<Rightarrow> Inl e | Inr x \<Rightarrow> for_append f is (acc @ [x]))"

section \<open>Weather code dictionary\<close>

text \<open>The dictionary literal of \<^verbatim>\<open>WeatherService._get_weather_description\<close>, in source order.\<close>

definition weather_codes :: "(int \<times> string) list" where
  "weather_codes =
    [(0, ''Clear sky''),
     (1, ''Mainly clear''),
     (2, ''Partly cloudy''),
     (3, ''Overcast''),
     (45, ''Fog''),
     (48, ''Depositing rime fog''),
     (51, ''Light drizzle''),
     (53, ''Moderate drizzle''),
     (55, ''Dense drizzle''),
     (56, ''Light freezing drizzle''),
     (57, ''Dense freezing drizzle''),
     (61, ''Slight rain''),
     (63, ''Moderate rain''),
     (65, ''Heavy rain''),
     (66, ''Light freezing rain''),
     (67, ''Heavy freezing rain''),
     (71, ''Slight snow fall''),
     (73, ''Moderate snow fall''),
     (75, ''Heavy snow fall''),
     (77, ''Snow grains''),
     (80, ''Slight rain showers''),
     (81, ''Moderate rain showers''),
     (82, ''Violent rain showers''),
     (85, ''Slight snow showers''),
     (86, ''Heavy snow showers''),
     (95, ''Thunderstorm''),
     (96, ''Thunderstorm with slight hail''),
     (99, ''Thunderstorm with heavy hail'')]"

text \<open>
  The integer key that a value is equal to when it is looked up in a dictionary with
  integer keys: Python compares and hashes the float 1.0 like the integer 1; null and
  strings equal no integer.
\<close>

fun int_key :: "jval \<Rightarrow> int option" where
  "int_key (JInt n) = Some n"
| "int_key (JNum x) = (if of_int \<lfloor>x\<rfloor> = x then Some \<lfloor>x\<rfloor> else None)"
| "int_key JNull = None"
| "int_key (JStr s) = None"

text \<open>\<^verbatim>\<open>weather_codes.get(code, "Unknown")\<close>.\<close>

definition get_weather_description :: "jval \<Rightarrow> string" where
  "get_weather_description code =
     (case int_key code of
        None \<Rightarrow> ''Unknown''
      | Some n \<Rightarrow> (case map_of weather_codes n of None \<Rightarrow> ''Unknown'' | Some s \<Rightarrow> s))"

text \<open>The fixed set of codes that the specification lists.\<close>

definition documented_codes :: "int list" where
  "documented_codes =
    [0, 1, 2, 3, 45, 48, 51, 53, 55, 56, 57, 61, 63, 65, 66, 67,
     71, 73, 75, 77, 80, 81, 82, 85, 86, 95, 96, 99]"

section \<open>Forecast normalizer\<close>

text \<open>
  The provider's response: a block of current conditions keyed by metric name, and an
  hourly and a daily block that map each metric name to an array indexed by time step.
  Each block may be missing from the response.
\<close>

record raw_data =
  rd_current :: "(string \<rightharpoonup> jval) option"
  rd_hourly :: "(string \<rightharpoonup> jval list) option"
  rd_daily :: "(string \<rightharpoonup> jval list) option"
  rd_timezone :: "jval option"
  rd_elevation :: "jval option"

record current_weather =
  cw_temperature :: jval
  cw_feels_like :: jval
  cw_humidity :: jval
  cw_precipitation :: jval
  cw_weather_code :: jval
  cw_weather_description :: string
  cw_cloud_cover :: jval
  cw_pressure :: jval
  cw_wind_speed :: jval
  cw_wind_direction :: jval
  cw_is_day :: jval
  cw_time :: jval

record hourly_entry =
  h_time :: jval
  h_temperature :: jval
  h_humidity :: jval
  h_precipitation_probability :: jval
  h_precipitation :: jval
  h_weather_code :: jval
  h_weather_description :: string
  h_wind_speed :: jval

record daily_entry =
  d_date :: jval
  d_temperature_max :: jval
  d_temperature_min :: jval
  d_feels_like_max :: jval
  d_feels_like_min :: jval
  d_precipitation :: jval
  d_wind_speed_max :: jval
  d_wind_direction :: jval
  d_weather_code :: jval
  d_weather_description :: string

record weather_data =
  wd_current_weather :: current_weather
  wd_hourly_forecast :: "hourly_entry list"
  wd_daily_forecast :: "daily_entry list"
  wd_timezone :: jval
  wd_elevation :: jval

text \<open>
  The guarded read that every metric field uses:
  \<^verbatim>\<open>blk[k][i] if i < len(blk.get(k, [])) else None\<close>.
\<close>

definition metric_at :: "(string \<rightharpoonup> jval list) \<Rightarrow> string \<Rightarrow> nat \<Rightarrow> jval result" where
  "metric_at blk k i =
     (if i < length (dict_get_or blk k [])
      then rbind (subscript blk k) (\<lambda>xs. list_index xs i)
      else Inr JNull)"

text \<open>The dictionary appended for hour \<open>i\<close>; its values are evaluated in source order.\<close>

definition hourly_item :: "(string \<rightharpoonup> jval list) \<Rightarrow> nat \<Rightarrow> hourly_entry result" where
  "hourly_item hourly i =
     rbind (rbind (subscript hourly ''time'') (\<lambda>ts. list_index ts i)) (\<lambda>t.
     rbind (metric_at hourly ''temperature_2m'' i) (\<lambda>temp.
     rbind (metric_at hourly ''relative_humidity_2m'' i) (\<lambda>hum.
     rbind (metric_at hourly ''precipitation_probability'' i) (\<lambda>pp.
     rbind (metric_at hourly ''precipitation'' i) (\<lambda>pr.
     rbind (metric_at hourly ''weather_code'' i) (\<lambda>wc.
     rbind (metric_at hourly ''weather_code'' i) (\<lambda>wc2.
     rbind (metric_at hourly ''wind_speed_10m'' i) (\<lambda>ws.
       Inr \<lparr>h_time = t,
            h_temperature = temp,
            h_humidity = hum,
            h_precipitation_probability = pp,
            h_precipitation = pr,
            h_weather_code = wc,
            h_weather_description = get_weather_description wc2,
            h_wind_speed = ws\<rparr>))))))))"

text \<open>The dictionary appended for day \<open>i\<close>.\<close>

definition daily_item :: "(string \<rightharpoonup> jval list) \<Rightarrow> nat \<Rightarrow> daily_entry result" where
  "daily_item daily i =
     rbind (rbind (subscript daily ''time'') (\<lambda>ts. list_index ts i)) (\<lambda>t.
     rbind (metric_at daily ''temperature_2m_max'' i) (\<lambda>tmax.
     rbind (metric_at daily ''temperature_2m_min'' i) (\<lambda>tmin.
     rbind (metric_at daily ''apparent_temperature_max'' i) (\<lambda>fmax.
     rbind (metric_at daily ''apparent_temperature_min'' i) (\<lambda>fmin.
     rbind (metric_at daily ''precipitation_sum'' i) (\<lambda>pr.
     rbind (metric_at daily ''wind_speed_10m_max'' i) (\<lambda>ws.
     rbind (metric_at daily ''wind_direction_10m_dominant'' i) (\<lambda>wd.
     rbind (metric_at daily ''weather_code'' i) (\<lambda>wc.
     rbind (metric_at daily ''weather_code'' i) (\<lambda>wc2.
       Inr \<lparr>d_date = t,
            d_temperature_max = tmax,
            d_temperature_min = tmin,
            d_feels_like_max = fmax,
            d_feels_like_min = fmin,
            d_precipitation = pr,
            d_wind_speed_max = ws,
            d_wind_direction = wd,
            d_weather_code = wc,
            d_weather_description = get_weather_description wc2\<rparr>))))))))))"

text \<open>The \<^verbatim>\<open>current_weather\<close> dictionary: only \<^verbatim>\<open>current.get(...)\<close> reads.\<close>

definition format_current :: "(string \<rightharpoonup> jval) \<Rightarrow> current_weather" where
  "format_current current =
     \<lparr>cw_temperature = dict_get current ''temperature_2m'',
      cw_feels_like = dict_get current ''apparent_temperature'',
      cw_humidity = dict_get current ''relative_humidity_2m'',
      cw_precipitation = dict_get current ''precipitation'',
      cw_weather_code = dict_get current ''weather_code'',
      cw_weather_description = get_weather_description (dict_get current ''weather_code''),
      cw_cloud_cover = dict_get current ''cloud_cover'',
      cw_pressure = dict_get current ''pressure_msl'',
      cw_wind_speed = dict_get current ''wind_speed_10m'',
      cw_wind_direction = dict_get current ''wind_direction_10m'',
      cw_is_day = dict_get current ''is_day'',
      cw_time = dict_get current ''time''\<rparr>"

text \<open>
  \<^verbatim>\<open>if hourly.get('time'): for i in range(min(24, len(hourly['time']))): ...\<close>: a missing
  or empty time array is falsy and leaves the forecast empty.
\<close>

definition format_hourly :: "(string \<rightharpoonup> jval list) \<Rightarrow> hourly_entry list result" where
  "format_hourly hourly =
     (if dict_get_or hourly ''time'' [] \<noteq> []
      then rbind (subscript hourly ''time'')
             (\<lambda>ts. for_append (hourly_item hourly) [0 ..< min 24 (length ts)] [])
      else Inr [])"

text \<open>\<^verbatim>\<open>if daily.get('time'): for i in range(len(daily['time'])): ...\<close>\<close>

definition format_daily :: "(string \<rightharpoonup> jval list) \<Rightarrow> daily_entry list result" where
  "format_daily daily =
     (if dict_get_or daily ''time'' [] \<noteq> []
      then rbind (subscript daily ''time'')
             (\<lambda>ts. for_append (daily_item daily) [0 ..< length ts] [])
      else Inr [])"

text \<open>\<^verbatim>\<open>WeatherService._format_weather_data\<close>.\<close>

definition format_weather_data :: "raw_data \<Rightarrow> weather_data result" where
  "format_weather_data raw =
     (let current = (case rd_current raw of None \<Rightarrow> Map.empty | Some c \<Rightarrow> c);
          hourly = (case rd_hourly raw of None \<Rightarrow> Map.empty | Some h \<Rightarrow> h);
          daily = (case rd_daily raw of None \<Rightarrow> Map.empty | Some d \<Rightarrow> d)
      in rbind (format_hourly hourly) (\<lambda>hf.
         rbind (format_daily daily) (\<lambda>df.
           Inr \<lparr>wd_current_weather = format_current current,
                wd_hourly_forecast = hf,
                wd_daily_forecast = df,
                wd_timezone = (case rd_timezone raw of None \<Rightarrow> JNull | Some v \<Rightarrow> v),
                wd_elevation = (case rd_elevation raw of None \<Rightarrow> JNull | Some v \<Rightarrow> v)\<rparr>)))"

text \<open>
  What the specification's words say about a metric array: the array found under a name
  (no array counts as an empty one), and its entry at a time step, null past its end.
\<close>

definition metric_array :: "(string \<rightharpoonup> jval list) option \<Rightarrow> string \<Rightarrow> jval list" where
  "metric_array blk k = (case blk of None \<Rightarrow> [] | Some b \<Rightarrow> (case b k of None \<Rightarrow> [] | Some xs \<Rightarrow> xs))"

definition entry_or_null :: "jval list \<Rightarrow> nat \<Rightarrow> jval" where
  "entry_or_null xs i = (if i < length xs then xs ! i else JNull)"



section \<open>City search\<close>

text \<open>
  A Python string as the list of its Unicode code points, so that its length is the
  number of characters as Python counts them. \<open>ustr\<close> reads an ASCII literal as such a
  string.
\<close>

type_synonym ustring = "nat list"

definition ustr :: "string \<Rightarrow> ustring" where
  "ustr s = map of_char s"

text \<open>The query parameters of the geocoding request.\<close>

record geo_params =
  gp_name :: ustring
  gp_count :: nat
  gp_language :: string
  gp_format :: string

text \<open>
  The decoded geocoding response: the list under \<^verbatim>\<open>results\<close> when the key is present,
  each match a dictionary.
\<close>

record geo_data =
  gd_results :: "(string \<rightharpoonup> jval) list option"

record city_match =
  cm_name :: jval
  cm_country :: jval
  cm_admin1 :: jval
  cm_latitude :: jval
  cm_longitude :: jval

definition search_params :: "ustring \<Rightarrow> geo_params" where
  "search_params query =
     \<lparr>gp_name = query, gp_count = 10, gp_language = ''en'', gp_format = ''json''\<rparr>"

definition city_of_result :: "(string \<rightharpoonup> jval) \<Rightarrow> city_match" where
  "city_of_result r =
     \<lparr>cm_name = dict_get_or r ''name'' (JStr []),
      cm_country = dict_get_or r ''country'' (JStr []),
      cm_admin1 = dict_get_or r ''admin1'' (JStr []),
      cm_latitude = dict_get r ''latitude'',
      cm_longitude = dict_get r ''longitude''\<rparr>"

text \<open>
  \<^verbatim>\<open>WeatherService.search_cities\<close>. The geocoding provider is a parameter: it answers a
  request with a decoded response or fails with \<open>RequestException\<close> (network error or a
  status that is not 2xx), which carries the text of \<^verbatim>\<open>str(e)\<close>. The requests sent are
  logged, in order.
\<close>

definition search_cities ::
  "(geo_params \<Rightarrow> geo_data result) \<Rightarrow> ustring \<Rightarrow> geo_params list
     \<Rightarrow> city_match list result \<times> geo_params list" where
  "search_cities geocoding query sent =
     (let params = search_params query;
          sent' = sent @ [params]
      in case geocoding params of
           Inl (RequestException m) \<Rightarrow>
             (Inl (PyException (''Failed to search cities: '' @ m)), sent')
         | Inl e \<Rightarrow> (Inl e, sent')
         | Inr data \<Rightarrow>
             (case gd_results data of
                None \<Rightarrow> (Inr [], sent')
              | Some rs \<Rightarrow> (for_append (\<lambda>i. Inr (city_of_result (rs ! i))) [0 ..< length rs] [], sent')))"

text \<open>
  Python's \<^verbatim>\<open>str.strip()\<close>: it removes the characters that \<^verbatim>\<open>str.isspace\<close> accepts from
  both ends. These are U+0009 to U+000D, U+001C to U+0020, U+0085, U+00A0, U+1680,
  U+2000 to U+200A, U+2028, U+2029, U+202F, U+205F and U+3000.
\<close>

definition is_space :: "nat \<Rightarrow> bool" where
  "is_space c =
     (c \<in> set [9, 10, 11, 12, 13, 28, 29, 30, 31, 32, 133, 160, 5760,
               8192, 8193, 8194, 8195, 8196, 8197, 8198, 8199, 8200, 8201, 8202,
               8232, 8233, 8239, 8287, 12288])"

definition strip :: "ustring \<Rightarrow> ustring" where
  "strip s = rev (dropWhile is_space (rev (dropWhile is_space s)))"

text \<open>
  The validators of a \<^verbatim>\<open>CharField(max_length=200)\<close>, in the order in which the field
  holds them: the length limit, then the two validators that every \<^verbatim>\<open>CharField\<close> adds,
  which prohibit the null character and surrogate code points (U+D800 to U+DFFF). Each
  gives the messages it raises for a value, none when it passes; the message for a
  surrogate names the first one in hexadecimal.
\<close>

definition max_length_validator :: "ustring \<Rightarrow> string list" where
  "max_length_validator v =
     (if 200 < length v then [''Ensure this field has no more than 200 characters.''] else [])"

definition null_characters_validator :: "ustring \<Rightarrow> string list" where
  "null_characters_validator v =
     (if 0 \<in> set v then [''Null characters are not allowed.''] else [])"

definition is_surrogate :: "nat \<Rightarrow> bool" where
  "is_surrogate c = (55296 \<le> c \<and> c \<le> 57343)"

definition hex_digit :: "nat \<Rightarrow> char" where
  "hex_digit d = ''0123456789ABCDEF'' ! (d mod 16)"

definition hex4 :: "nat \<Rightarrow> string" where
  "hex4 c = [hex_digit (c div 4096), hex_digit (c div 256), hex_digit (c div 16), hex_digit c]"

definition surrogate_characters_validator :: "ustring \<Rightarrow> string list" where
  "surrogate_characters_validator v =
     (case filter is_surrogate v of
        [] \<Rightarrow> []
      | c # _ \<Rightarrow> [''Surrogate characters are not allowed: U+'' @ hex4 c @ ''.''])"

text \<open>
  \<^verbatim>\<open>run_validators\<close>: every validator runs, their messages are collected, and one
  validation error with all of them is raised when there are any.
\<close>

definition run_validators :: "ustring \<Rightarrow> ustring result" where
  "run_validators v =
     (let errors = max_length_validator v @ null_characters_validator v
                     @ surrogate_characters_validator v
      in if errors = [] then Inr v else Inl (ValidationErrors errors))"

text \<open>
  The field \<^verbatim>\<open>query = serializers.CharField(max_length=200, required=True)\<close>: the field
  must be present and must not be blank; its value is trimmed, and the trimmed value
  goes through the validators.
\<close>

definition query_field :: "ustring option \<Rightarrow> ustring result" where
  "query_field data =
     (case data of
        None \<Rightarrow> Inl (ValidationError ''This field is required.'')
      | Some q \<Rightarrow>
          if strip q = [] then Inl (ValidationError ''This field may not be blank.'')
          else run_validators (strip q))"

text \<open>\<^verbatim>\<open>CitySearchSerializer.validate_query\<close>.\<close>

definition validate_query :: "ustring \<Rightarrow> ustring result" where
  "validate_query v =
     (if length (strip v) < 2
      then Inl (ValidationError ''City name must be at least 2 characters long'')
      else Inr (strip v))"

text \<open>\<^verbatim>\<open>serializer.is_valid()\<close>: the field's own validation, then \<^verbatim>\<open>validate_query\<close>.\<close>

definition city_search_is_valid :: "ustring option \<Rightarrow> ustring result" where
  "city_search_is_valid data = rbind (query_field data) validate_query"

text \<open>The errors with which a serializer rejects its input.\<close>

definition is_validation_error :: "py_error \<Rightarrow> bool" where
  "is_validation_error e =
     (case e of ValidationError m \<Rightarrow> True | ValidationErrors ms \<Rightarrow> True | _ \<Rightarrow> False)"

datatype 'a response =
    Response200 'a
  | Response400 py_error
  | Response404
  | Response500 py_error
  | Unhandled py_error

record city_search_payload =
  csp_cities :: "city_match list"
  csp_count :: nat

text \<open>\<^verbatim>\<open>CitySearchView.post\<close>.\<close>

definition city_search_post ::
  "(geo_params \<Rightarrow> geo_data result) \<Rightarrow> ustring option \<Rightarrow> geo_params list
     \<Rightarrow> city_search_payload response \<times> geo_params list" where
  "city_search_post geocoding data sent =
     (case city_search_is_valid data of
        Inl e \<Rightarrow> (Response400 e, sent)
      | Inr query \<Rightarrow>
          (case search_cities geocoding query sent of
             (Inr cities, sent') \<Rightarrow>
               (Response200 \<lparr>csp_cities = cities, csp_count = length cities\<rparr>, sent')
           | (Inl e, sent') \<Rightarrow> (Response500 e, sent')))"

section \<open>Persisted state and the search ledger\<close>

record user_row =
  u_id :: nat
  u_session_key :: string
  u_created_at :: nat

record city_row =
  c_id :: nat
  c_name :: string
  c_country :: string
  c_admin1 :: "string option"
  c_latitude :: real
  c_longitude :: real

record search_row =
  s_id :: nat
  s_user :: nat
  s_city :: nat
  s_search_count :: nat
  s_last_searched :: nat
  s_created_at :: nat

record store =
  users :: "user_row list"
  cities :: "city_row list"
  searches :: "search_row list"

text \<open>
  The city attributes passed to \<^verbatim>\<open>save_search\<close>. The key \<^verbatim>\<open>admin1\<close> may be missing
  (\<open>None\<close>), or present with a string or with None (\<open>Some None\<close>).
\<close>

record city_data =
  cd_name :: string
  cd_country :: string
  cd_admin1 :: "string option option"
  cd_latitude :: real
  cd_longitude :: real

text \<open>\<^verbatim>\<open>Model.objects.get(...)\<close> on the rows that satisfy the lookup.\<close>

definition objects_get :: "('r \<Rightarrow> bool) \<Rightarrow> 'r list \<Rightarrow> 'r result" where
  "objects_get p rows =
     (case filter p rows of
        [] \<Rightarrow> Inl DoesNotExist
      | [r] \<Rightarrow> Inr r
      | _ # _ # _ \<Rightarrow> Inl MultipleObjectsReturned)"

text \<open>The key of a newly inserted row: above every key of the table.\<close>

definition next_id :: "nat list \<Rightarrow> nat" where
  "next_id ids = Suc (fold max ids 0)"

text \<open>\<^verbatim>\<open>UserService.get_or_create_user\<close>.\<close>

definition get_or_create_user :: "store \<Rightarrow> nat \<Rightarrow> string \<Rightarrow> user_row result \<times> store" where
  "get_or_create_user db now session_key =
     (case objects_get (\<lambda>u. u_session_key u = session_key) (users db) of
        Inr u \<Rightarrow> (Inr u, db)
      | Inl DoesNotExist \<Rightarrow>
          (let u = \<lparr>u_id = next_id (map u_id (users db)),
                    u_session_key = session_key,
                    u_created_at = now\<rparr>
           in (Inr u, db\<lparr>users := users db @ [u]\<rparr>))
      | Inl e \<Rightarrow> (Inl e, db))"

text \<open>The lookup of \<^verbatim>\<open>City.objects.get_or_create\<close> in \<^verbatim>\<open>save_search\<close>.\<close>

definition city_matches :: "city_data \<Rightarrow> city_row \<Rightarrow> bool" where
  "city_matches cd c =
     (c_name c = cd_name cd \<and> c_country c = cd_country cd \<and>
      c_latitude c = cd_latitude cd \<and> c_longitude c = cd_longitude cd)"

definition get_or_create_city :: "store \<Rightarrow> city_data \<Rightarrow> (city_row \<times> bool) result \<times> store" where
  "get_or_create_city db cd =
     (case objects_get (city_matches cd) (cities db) of
        Inr c \<Rightarrow> (Inr (c, False), db)
      | Inl DoesNotExist \<Rightarrow>
          (let c = \<lparr>c_id = next_id (map c_id (cities db)),
                    c_name = cd_name cd,
                    c_country = cd_country cd,
                    c_admin1 = (case cd_admin1 cd of None \<Rightarrow> Some [] | Some a \<Rightarrow> a),
                    c_latitude = cd_latitude cd,
                    c_longitude = cd_longitude cd\<rparr>
           in (Inr (c, True), db\<lparr>cities := cities db @ [c]\<rparr>))
      | Inl e \<Rightarrow> (Inl e, db))"

definition get_or_create_search ::
  "store \<Rightarrow> nat \<Rightarrow> user_row \<Rightarrow> city_row \<Rightarrow> (search_row \<times> bool) result \<times> store" where
  "get_or_create_search db now user city =
     (case objects_get (\<lambda>s. s_user s = u_id user \<and> s_city s = c_id city) (searches db) of
        Inr s \<Rightarrow> (Inr (s, False), db)
      | Inl DoesNotExist \<Rightarrow>
          (let s = \<lparr>s_id = next_id (map s_id (searches db)),
                    s_user = u_id user,
                    s_city = c_id city,
                    s_search_count = 1,
                    s_last_searched = now,
                    s_created_at = now\<rparr>
           in (Inr (s, True), db\<lparr>searches := searches db @ [s]\<rparr>))
      | Inl e \<Rightarrow> (Inl e, db))"

text \<open>\<^verbatim>\<open>search_history.save()\<close>: the row with that key is rewritten.\<close>

definition save_row :: "store \<Rightarrow> search_row \<Rightarrow> store" where
  "save_row db s = db\<lparr>searches := map (\<lambda>r. if s_id r = s_id s then s else r) (searches db)\<rparr>"

text \<open>\<^verbatim>\<open>UserService.save_search\<close>; \<open>now\<close> is the clock's reading.\<close>

definition save_search :: "store \<Rightarrow> nat \<Rightarrow> user_row \<Rightarrow> city_data \<Rightarrow> search_row result \<times> store" where
  "save_search db now user cd =
     (case get_or_create_city db cd of
        (Inl e, db1) \<Rightarrow> (Inl e, db1)
      | (Inr (city, city_created), db1) \<Rightarrow>
          (case get_or_create_search db1 now user city of
             (Inl e, db2) \<Rightarrow> (Inl e, db2)
           | (Inr (s, created), db2) \<Rightarrow>
               if \<not> created
               then (let s' = s\<lparr>s_search_count := s_search_count s + 1, s_last_searched := now\<rparr>
                     in (Inr s', save_row db2 s'))
               else (Inr s, db2)))"

text \<open>
  The constraints that the storage layer enforces: primary keys, the two
  \<^verbatim>\<open>unique_together\<close> declarations of the models, and the foreign key from a
  search row to its city.
\<close>

definition city_key :: "city_row \<Rightarrow> string \<times> string \<times> real \<times> real" where
  "city_key c = (c_name c, c_country c, c_latitude c, c_longitude c)"

definition store_ok :: "store \<Rightarrow> bool" where
  "store_ok db =
     (distinct (map c_id (cities db)) \<and>
      distinct (map city_key (cities db)) \<and>
      distinct (map s_id (searches db)) \<and>
      distinct (map (\<lambda>s. (s_user s, s_city s)) (searches db)) \<and>
      list_all (\<lambda>s. s_city s \<in> set (map c_id (cities db))) (searches db))"

text \<open>The rows that the claims count.\<close>

definition city_rows_for :: "store \<Rightarrow> city_data \<Rightarrow> city_row list" where
  "city_rows_for db cd = filter (city_matches cd) (cities db)"

definition search_rows_for :: "store \<Rightarrow> nat \<Rightarrow> nat \<Rightarrow> search_row list" where
  "search_rows_for db uid cid = filter (\<lambda>s. s_user s = uid \<and> s_city s = cid) (searches db)"

section \<open>Weather request\<close>

text \<open>The validated fields of a weather request; each is optional.\<close>

record weather_request =
  wr_city_id :: "int option"
  wr_latitude :: "real option"
  wr_longitude :: "real option"

text \<open>
  Python's truth value of \<^verbatim>\<open>data.get(k)\<close>: a missing field gives None, which is false,
  and so is the number zero.
\<close>

definition truthy_int :: "int option \<Rightarrow> bool" where
  "truthy_int v = (case v of None \<Rightarrow> False | Some n \<Rightarrow> n \<noteq> 0)"

definition truthy_float :: "real option \<Rightarrow> bool" where
  "truthy_float v = (case v of None \<Rightarrow> False | Some x \<Rightarrow> x \<noteq> 0)"

text \<open>\<^verbatim>\<open>WeatherRequestSerializer.validate\<close>.\<close>

definition validate_weather_request :: "weather_request \<Rightarrow> weather_request result" where
  "validate_weather_request data =
     (if \<not> truthy_int (wr_city_id data) \<and>
         \<not> (truthy_float (wr_latitude data) \<and> truthy_float (wr_longitude data))
      then Inl (ValidationError
                 ''Either city_id or both latitude and longitude must be provided'')
      else Inr data)"

text \<open>
  \<^verbatim>\<open>WeatherService.get_weather_data\<close>. The forecast provider is a parameter, like the
  geocoding provider; the coordinates of every request sent are logged.
\<close>

definition get_weather_data ::
  "(real \<times> real \<Rightarrow> raw_data result) \<Rightarrow> real \<Rightarrow> real \<Rightarrow> (real \<times> real) list
     \<Rightarrow> weather_data result \<times> (real \<times> real) list" where
  "get_weather_data forecast latitude longitude sent =
     (let sent' = sent @ [(latitude, longitude)]
      in case forecast (latitude, longitude) of
           Inl (RequestException m) \<Rightarrow>
             (Inl (PyException (''Failed to fetch weather data: '' @ m)), sent')
         | Inl e \<Rightarrow> (Inl e, sent')
         | Inr raw \<Rightarrow> (format_weather_data raw, sent'))"

record weather_payload =
  wp_weather :: weather_data
  wp_city :: "city_row option"

text \<open>
  The second half of \<^verbatim>\<open>WeatherView.post\<close>, inside its \<^verbatim>\<open>try\<close>: fetch the forecast, then
  record the search when the request named a city.
\<close>

definition weather_reply ::
  "(real \<times> real \<Rightarrow> raw_data result) \<Rightarrow> nat \<Rightarrow> user_row \<Rightarrow> real \<Rightarrow> real \<Rightarrow> city_row option
     \<Rightarrow> store \<Rightarrow> (real \<times> real) list
     \<Rightarrow> weather_payload response \<times> store \<times> (real \<times> real) list" where
  "weather_reply forecast now user latitude longitude city db sent =
     (case get_weather_data forecast latitude longitude sent of
        (Inl e, sent') \<Rightarrow> (Response500 e, db, sent')
      | (Inr wd, sent') \<Rightarrow>
          (case city of
             None \<Rightarrow> (Response200 \<lparr>wp_weather = wd, wp_city = None\<rparr>, db, sent')
           | Some c \<Rightarrow>
               (case save_search db now user
                       \<lparr>cd_name = c_name c,
                        cd_country = c_country c,
                        cd_admin1 = Some (c_admin1 c),
                        cd_latitude = c_latitude c,
                        cd_longitude = c_longitude c\<rparr> of
                  (Inl e, db') \<Rightarrow> (Response500 e, db', sent')
                | (Inr s, db') \<Rightarrow>
                    (Response200 \<lparr>wp_weather = wd, wp_city = Some c\<rparr>, db', sent'))))"

text \<open>
  \<^verbatim>\<open>WeatherView.post\<close>. \<open>session\<close> is the request's session key, \<open>fresh_key\<close> the key
  that the session provider hands out when the request has none. An exception raised
  outside the view's \<^verbatim>\<open>try\<close> leaves the view unhandled.
\<close>

definition weather_post ::
  "(real \<times> real \<Rightarrow> raw_data result) \<Rightarrow> nat \<Rightarrow> string \<Rightarrow> string option \<Rightarrow> weather_request
     \<Rightarrow> store \<Rightarrow> (real \<times> real) list
     \<Rightarrow> weather_payload response \<times> store \<times> (real \<times> real) list" where
  "weather_post forecast now fresh_key session data db sent =
     (case validate_weather_request data of
        Inl e \<Rightarrow> (Response400 e, db, sent)
      | Inr vd \<Rightarrow>
          (let session_key =
                 (case session of None \<Rightarrow> fresh_key | Some k \<Rightarrow> if k = [] then fresh_key else k)
           in case get_or_create_user db now session_key of
                (Inl e, db1) \<Rightarrow> (Unhandled e, db1, sent)
              | (Inr user, db1) \<Rightarrow>
                  if truthy_int (wr_city_id vd)
                  then (case objects_get (\<lambda>c. Some (int (c_id c)) = wr_city_id vd) (cities db1) of
                          Inl DoesNotExist \<Rightarrow> (Response404, db1, sent)
                        | Inl e \<Rightarrow> (Response500 e, db1, sent)
                        | Inr city \<Rightarrow>
                            weather_reply forecast now user (c_latitude city) (c_longitude city)
                              (Some city) db1 sent)
                  else (case wr_latitude vd of
                          None \<Rightarrow> (Response500 (KeyError ''latitude''), db1, sent)
                        | Some la \<Rightarrow>
                            (case wr_longitude vd of
                               None \<Rightarrow> (Response500 (KeyError ''longitude''), db1, sent)
                             | Some lo \<Rightarrow> weather_reply forecast now user la lo None db1 sent))))"

section \<open>Popular cities\<close>

record popular_row =
  pc_city_name :: string
  pc_city_country :: string
  pc_city_id :: nat
  pc_total_searches :: nat
  pc_unique_users :: nat

text \<open>
  The query of \<^verbatim>\<open>PopularCitiesView.get\<close>, read as the SQL it stands for: the search rows
  joined with their city, grouped by \<^verbatim>\<open>(city__name, city__country, city__id)\<close>, annotated
  with \<^verbatim>\<open>Sum('search_count')\<close> and \<^verbatim>\<open>Count('user', distinct=True)\<close>, ordered by the sum
  descending and cut after 10 rows. SQL leaves the order of groups with equal sums open;
  here they keep the order in which their keys are listed.
\<close>

definition search_city_join :: "store \<Rightarrow> (search_row \<times> city_row) list" where
  "search_city_join db =
     concat (map (\<lambda>s. map (\<lambda>c. (s, c)) (filter (\<lambda>c. c_id c = s_city s) (cities db))) (searches db))"

definition group_key :: "search_row \<times> city_row \<Rightarrow> string \<times> string \<times> nat" where
  "group_key j = (c_name (snd j), c_country (snd j), c_id (snd j))"

definition annotate :: "store \<Rightarrow> string \<times> string \<times> nat \<Rightarrow> popular_row" where
  "annotate db k =
     (let grp = filter (\<lambda>j. group_key j = k) (search_city_join db)
      in \<lparr>pc_city_name = fst k,
          pc_city_country = fst (snd k),
          pc_city_id = snd (snd k),
          pc_total_searches = sum_list (map (\<lambda>j. s_search_count (fst j)) grp),
          pc_unique_users = length (remdups (map (\<lambda>j. s_user (fst j)) grp))\<rparr>)"

definition popular_groups :: "store \<Rightarrow> popular_row list" where
  "popular_groups db = map (annotate db) (remdups (map group_key (search_city_join db)))"

definition popular_cities :: "store \<Rightarrow> popular_row list" where
  "popular_cities db = take 10 (sort_key (\<lambda>r. - int (pc_total_searches r)) (popular_groups db))"

text \<open>The specification's words for one city: its rows, their summed count, their sessions.\<close>

definition searches_of_city :: "store \<Rightarrow> nat \<Rightarrow> search_row list" where
  "searches_of_city db cid = filter (\<lambda>s. s_city s = cid) (searches db)"

definition total_searches_of :: "store \<Rightarrow> nat \<Rightarrow> nat" where
  "total_searches_of db cid = sum_list (map s_search_count (searches_of_city db cid))"

definition unique_users_of :: "store \<Rightarrow> nat \<Rightarrow> nat" where
  "unique_users_of db cid = card (s_user ` set (searches_of_city db cid))"

section \<open>Reference readings and sample inputs\<close>

text \<open>A block that is missing from the response reads as an empty dictionary.\<close>

definition block_of :: "(string \<rightharpoonup> 'a) option \<Rightarrow> (string \<rightharpoonup> 'a)" where
  "block_of b = (case b of None \<Rightarrow> Map.empty | Some m \<Rightarrow> m)"

text \<open>
  The entry for time step \<open>i\<close> as the specification describes it, with no read that can
  fail: every metric field is the array's entry, or null past the array's end.
\<close>

definition hourly_of :: "(string \<rightharpoonup> jval list) \<Rightarrow> nat \<Rightarrow> hourly_entry" where
  "hourly_of hourly i =
     \<lparr>h_time = dict_get_or hourly ''time'' [] ! i,
      h_temperature = entry_or_null (dict_get_or hourly ''temperature_2m'' []) i,
      h_humidity = entry_or_null (dict_get_or hourly ''relative_humidity_2m'' []) i,
      h_precipitation_probability =
        entry_or_null (dict_get_or hourly ''precipitation_probability'' []) i,
      h_precipitation = entry_or_null (dict_get_or hourly ''precipitation'' []) i,
      h_weather_code = entry_or_null (dict_get_or hourly ''weather_code'' []) i,
      h_weather_description =
        get_weather_description (entry_or_null (dict_get_or hourly ''weather_code'' []) i),
      h_wind_speed = entry_or_null (dict_get_or hourly ''wind_speed_10m'' []) i\<rparr>"

definition daily_of :: "(string \<rightharpoonup> jval list) \<Rightarrow> nat \<Rightarrow> daily_entry" where
  "daily_of daily i =
     \<lparr>d_date = dict_get_or daily ''time'' [] ! i,
      d_temperature_max = entry_or_null (dict_get_or daily ''temperature_2m_max'' []) i,
      d_temperature_min = entry_or_null (dict_get_or daily ''temperature_2m_min'' []) i,
      d_feels_like_max = entry_or_null (dict_get_or daily ''apparent_temperature_max'' []) i,
      d_feels_like_min = entry_or_null (dict_get_or daily ''apparent_temperature_min'' []) i,
      d_precipitation = entry_or_null (dict_get_or daily ''precipitation_sum'' []) i,
      d_wind_speed_max = entry_or_null (dict_get_or daily ''wind_speed_10m_max'' []) i,
      d_wind_direction = entry_or_null (dict_get_or daily ''wind_direction_10m_dominant'' []) i,
      d_weather_code = entry_or_null (dict_get_or daily ''weather_code'' []) i,
      d_weather_description =
        get_weather_description (entry_or_null (dict_get_or daily ''weather_code'' []) i)\<rparr>"


text \<open>A response with 30 hourly and 9 daily time steps.\<close>

definition long_response :: raw_data where
  "long_response =
     \<lparr>rd_current = None,
      rd_hourly = Some [''time'' \<mapsto> replicate 30 (JStr ''hour'')],
      rd_daily = Some [''time'' \<mapsto> replicate 9 (JStr ''day'')],
      rd_timezone = None,
      rd_elevation = None\<rparr>"

text \<open>The matches of a geocoding response; a response without \<^verbatim>\<open>results\<close> has none.\<close>

definition results_of :: "geo_data \<Rightarrow> (string \<rightharpoonup> jval) list" where
  "results_of data = (case gd_results data of None \<Rightarrow> [] | Some rs \<Rightarrow> rs)"

text \<open>A geocoding provider that answers every request with 11 matches.\<close>

definition eleven_matches :: "geo_params \<Rightarrow> geo_data result" where
  "eleven_matches p = Inr \<lparr>gd_results = Some (replicate 11 [''name'' \<mapsto> JStr ''Springfield''])\<rparr>"


text \<open>
  The characters that the field's validators prohibit, and a query with a null character
  between two letters.
\<close>

definition has_prohibited_character :: "ustring \<Rightarrow> bool" where
  "has_prohibited_character v = (0 \<in> set v \<or> list_ex is_surrogate v)"

definition null_query :: ustring where
  "null_query = [97, 0, 98]"

text \<open>The rows that \<^verbatim>\<open>get_or_create\<close> inserts, and the row that a repeated search saves.\<close>

definition new_city :: "store \<Rightarrow> city_data \<Rightarrow> city_row" where
  "new_city db cd =
     \<lparr>c_id = next_id (map c_id (cities db)),
      c_name = cd_name cd,
      c_country = cd_country cd,
      c_admin1 = (case cd_admin1 cd of None \<Rightarrow> Some [] | Some a \<Rightarrow> a),
      c_latitude = cd_latitude cd,
      c_longitude = cd_longitude cd\<rparr>"

definition new_search :: "store \<Rightarrow> nat \<Rightarrow> user_row \<Rightarrow> city_row \<Rightarrow> search_row" where
  "new_search db now user city =
     \<lparr>s_id = next_id (map s_id (searches db)),
      s_user = u_id user,
      s_city = c_id city,
      s_search_count = 1,
      s_last_searched = now,
      s_created_at = now\<rparr>"

definition bump :: "search_row \<Rightarrow> nat \<Rightarrow> search_row" where
  "bump s now = s\<lparr>s_search_count := s_search_count s + 1, s_last_searched := now\<rparr>"

text \<open>Sample data: the empty store, and the user and city attributes of the repository's tests.\<close>

definition empty_store :: store where
  "empty_store = \<lparr>users = [], cities = [], searches = []\<rparr>"

definition test_user :: user_row where
  "test_user = \<lparr>u_id = 1, u_session_key = ''test_session_123'', u_created_at = 0\<rparr>"

definition london :: city_data where
  "london =
     \<lparr>cd_name = ''London'',
      cd_country = ''United Kingdom'',
      cd_admin1 = Some (Some ''England''),
      cd_latitude = 51.5074,
      cd_longitude = - 0.1278\<rparr>"


text \<open>
  Sample requests: coordinates on the equator without a city; the city key 0 together
  with coordinates; a city key that no row has. The sample forecast provider answers
  every request with an empty response.
\<close>

definition zero_request :: weather_request where
  "zero_request = \<lparr>wr_city_id = None, wr_latitude = Some 0, wr_longitude = Some 10\<rparr>"

definition zero_id_request :: weather_request where
  "zero_id_request =
     \<lparr>wr_city_id = Some 0, wr_latitude = Some 51.5074, wr_longitude = Some (- 0.1278)\<rparr>"

definition unknown_city_request :: weather_request where
  "unknown_city_request = \<lparr>wr_city_id = Some 99999, wr_latitude = None, wr_longitude = None\<rparr>"

definition empty_forecast :: "real \<times> real \<Rightarrow> raw_data result" where
  "empty_forecast p =
     Inr \<lparr>rd_current = None, rd_hourly = None, rd_daily = None,
          rd_timezone = None, rd_elevation = None\<rparr>"

text \<open>
  Reference reading of the popular-cities query: the city rows with a given key, the
  cities that have search rows (each once), and the summary row of one city.
\<close>

definition cities_with_id :: "store \<Rightarrow> nat \<Rightarrow> city_row list" where
  "cities_with_id db cid = filter (\<lambda>c. c_id c = cid) (cities db)"

definition city_summary :: "store \<Rightarrow> nat \<Rightarrow> popular_row" where
  "city_summary db cid =
     \<lparr>pc_city_name = c_name (hd (cities_with_id db cid)),
      pc_city_country = c_country (hd (cities_with_id db cid)),
      pc_city_id = cid,
      pc_total_searches = total_searches_of db cid,
      pc_unique_users = unique_users_of db cid\<rparr>"

definition searched_cities :: "store \<Rightarrow> nat list" where
  "searched_cities db = remdups (map s_city (searches db))"

text \<open>The joined row of a search row, and the group key of a city, when keys are unique.\<close>

definition joined :: "store \<Rightarrow> search_row \<Rightarrow> search_row \<times> city_row" where
  "joined db s = (s, hd (cities_with_id db (s_city s)))"

definition key_of_city :: "store \<Rightarrow> nat \<Rightarrow> string \<times> string \<times> nat" where
  "key_of_city db cid =
     (c_name (hd (cities_with_id db cid)), c_country (hd (cities_with_id db cid)), cid)"

text \<open>The sort key of \<^verbatim>\<open>order_by('-total_searches')\<close>.\<close>

definition by_total :: "popular_row \<Rightarrow> int" where
  "by_total r = - int (pc_total_searches r)"

text \<open>A store with two sessions, two cities and three search rows.\<close>

definition sample_store :: store where
  "sample_store =
     \<lparr>users = [\<lparr>u_id = 1, u_session_key = ''a'', u_created_at = 0\<rparr>,
               \<lparr>u_id = 2, u_session_key = ''b'', u_created_at = 0\<rparr>],
      cities = [\<lparr>c_id = 1, c_name = ''London'', c_country = ''United Kingdom'',
                 c_admin1 = Some ''England'', c_latitude = 51.5074, c_longitude = - 0.1278\<rparr>,
                \<lparr>c_id = 2, c_name = ''Paris'', c_country = ''France'',
                 c_admin1 = None, c_latitude = 48.8566, c_longitude = 2.3522\<rparr>],
      searches = [\<lparr>s_id = 1, s_user = 1, s_city = 2, s_search_count = 3,
                   s_last_searched = 5, s_created_at = 1\<rparr>,
                  \<lparr>s_id = 2, s_user = 1, s_city = 1, s_search_count = 5,
                   s_last_searched = 6, s_created_at = 2\<rparr>,
                  \<lparr>s_id = 3, s_user = 2, s_city = 1, s_search_count = 2,
                   s_last_searched = 7, s_created_at = 3\<rparr>]\<rparr>"

section \<open>Properties of the weather code dictionary\<close>

lemma unknown_outside_codes:
  "int_key v \<notin> Some ` set documented_codes \<Longrightarrow> get_weather_description v = ''Unknown''"
  apply (simp add: get_weather_description_def split: option.splits)
  apply (auto simp: weather_codes_def documented_codes_def split: if_splits)
  done

lemma int_key_SomeD: "int_key v = Some n \<Longrightarrow> v = JInt n \<or> v = JNum (of_int n)"
  by (cases v) (auto split: if_splits)

text \<open>
  Claim C3, as amended. For every code of the fixed set the description is the string
  listed for it; a float equal to an integer is described like that integer (Python's
  dictionary takes 1.0 for the key 1), so a code that arrives as a float gets its
  string too; every other input (null, a string, a number that is none of the codes)
  is described as "Unknown".
\<close>

theorem get_weather_description_table:
  "map (\<lambda>n. (n, get_weather_description (JInt n))) documented_codes =
     [(0, ''Clear sky''), (1, ''Mainly clear''), (2, ''Partly cloudy''), (3, ''Overcast''),
      (45, ''Fog''), (48, ''Depositing rime fog''),
      (51, ''Light drizzle''), (53, ''Moderate drizzle''), (55, ''Dense drizzle''),
      (56, ''Light freezing drizzle''), (57, ''Dense freezing drizzle''),
      (61, ''Slight rain''), (63, ''Moderate rain''), (65, ''Heavy rain''),
      (66, ''Light freezing rain''), (67, ''Heavy freezing rain''),
      (71, ''Slight snow fall''), (73, ''Moderate snow fall''), (75, ''Heavy snow fall''),
      (77, ''Snow grains''),
      (80, ''Slight rain showers''), (81, ''Moderate rain showers''),
      (82, ''Violent rain showers''),
      (85, ''Slight snow showers''), (86, ''Heavy snow showers''),
      (95, ''Thunderstorm''), (96, ''Thunderstorm with slight hail''),
      (99, ''Thunderstorm with heavy hail'')]
   \<and> (\<forall>n. get_weather_description (JNum (of_int n)) = get_weather_description (JInt n))
   \<and> get_weather_description JNull = ''Unknown''
   \<and> (\<forall>v. v \<notin> JInt ` set documented_codes \<and>
           v \<notin> (\<lambda>n. JNum (of_int n)) ` set documented_codes
          \<longrightarrow> get_weather_description v = ''Unknown'')"
proof (intro conjI allI impI)
  show "map (\<lambda>n. (n, get_weather_description (JInt n))) documented_codes =
     [(0, ''Clear sky''), (1, ''Mainly clear''), (2, ''Partly cloudy''), (3, ''Overcast''),
      (45, ''Fog''), (48, ''Depositing rime fog''),
      (51, ''Light drizzle''), (53, ''Moderate drizzle''), (55, ''Dense drizzle''),
      (56, ''Light freezing drizzle''), (57, ''Dense freezing drizzle''),
      (61, ''Slight rain''), (63, ''Moderate rain''), (65, ''Heavy rain''),
      (66, ''Light freezing rain''), (67, ''Heavy freezing rain''),
      (71, ''Slight snow fall''), (73, ''Moderate snow fall''), (75, ''Heavy snow fall''),
      (77, ''Snow grains''),
      (80, ''Slight rain showers''), (81, ''Moderate rain showers''),
      (82, ''Violent rain showers''),
      (85, ''Slight snow showers''), (86, ''Heavy snow showers''),
      (95, ''Thunderstorm''), (96, ''Thunderstorm with slight hail''),
      (99, ''Thunderstorm with heavy hail'')]"
    by (simp add: get_weather_description_def documented_codes_def weather_codes_def)
  show "get_weather_description JNull = ''Unknown''"
    by (simp add: get_weather_description_def)
  show "get_weather_description (JNum (of_int n)) = get_weather_description (JInt n)" for n
    by (simp add: get_weather_description_def)
next
  fix v
  assume a: "v \<notin> JInt ` set documented_codes \<and>
             v \<notin> (\<lambda>n. JNum (of_int n)) ` set documented_codes"
  have "int_key v \<notin> Some ` set documented_codes"
  proof
    assume "int_key v \<in> Some ` set documented_codes"
    then obtain n where n: "n \<in> set documented_codes" "int_key v = Some n" by auto
    from int_key_SomeD[OF n(2)] n(1) a show False by auto
  qed
  then show "get_weather_description v = ''Unknown''" by (rule unknown_outside_codes)
qed

text \<open>
  Claim C3 as stated fails: the float 1.0 is not an integer code of the set, and it is
  described as "Mainly clear", not as "Unknown".
\<close>

theorem get_weather_description_float_counterexample:
  "JNum 1 \<notin> JInt ` set documented_codes \<and>
   get_weather_description (JNum 1) = ''Mainly clear'' \<and>
   get_weather_description (JNum 1) \<noteq> ''Unknown''"
  by (auto simp: get_weather_description_def weather_codes_def)

theorem get_weather_description_table_witness:
  "get_weather_description (JInt 999) = ''Unknown'' \<and>
   get_weather_description (JStr ''61'') = ''Unknown'' \<and>
   get_weather_description (JNum 15.5) = ''Unknown'' \<and>
   get_weather_description JNull = ''Unknown'' \<and>
   get_weather_description (JNum 61) = get_weather_description (JInt 61)"
proof -
  note t = get_weather_description_table
  have u: "v \<notin> JInt ` set documented_codes \<and>
           v \<notin> (\<lambda>n. JNum (of_int n)) ` set documented_codes
           \<Longrightarrow> get_weather_description v = ''Unknown''" for v
    using t by blast
  have f: "get_weather_description (JNum (of_int n)) = get_weather_description (JInt n)" for n
    using t by blast
  have a: "JInt 999 \<notin> JInt ` set documented_codes \<and>
           JInt 999 \<notin> (\<lambda>n. JNum (of_int n)) ` set documented_codes"
    by (auto simp: documented_codes_def)
  have b: "JStr ''61'' \<notin> JInt ` set documented_codes \<and>
           JStr ''61'' \<notin> (\<lambda>n. JNum (of_int n)) ` set documented_codes"
    by auto
  have "JNum 15.5 \<noteq> JNum (of_int n)" for n
  proof
    assume "JNum 15.5 = JNum (of_int n)"
    then have "(of_int n :: real) = 31 / 2" by simp
    then have "(of_int (2 * n) :: real) = of_int 31" by simp
    then have "2 * n = 31" by (simp only: of_int_eq_iff)
    then show False by presburger
  qed
  then have c: "JNum 15.5 \<notin> JInt ` set documented_codes \<and>
           JNum 15.5 \<notin> (\<lambda>n. JNum (of_int n)) ` set documented_codes"
    by auto
  from f[of 61] have "get_weather_description (JNum 61) = get_weather_description (JInt 61)"
    by simp
  with u[OF a] u[OF b] u[OF c] t show ?thesis by blast
qed

section \<open>Properties of the forecast normalizer\<close>

lemma rbind_Inr: "rbind (Inr x) f = f x"
  by (simp add: rbind_def)

lemma metric_at_total:
  "metric_at blk k i = Inr (entry_or_null (dict_get_or blk k []) i)"
  by (simp add: metric_at_def entry_or_null_def dict_get_or_def subscript_def rbind_def
      list_index_def split: option.splits)

lemma for_append_map:
  "(\<And>i. i \<in> set is \<Longrightarrow> f i = Inr (g i)) \<Longrightarrow> for_append f is acc = Inr (acc @ map g is)"
  by (induction "is" arbitrary: acc) simp_all

lemma time_at:
  "i < length (dict_get_or blk ''time'' []) \<Longrightarrow>
   rbind (subscript blk ''time'') (\<lambda>ts. list_index ts i) = Inr (dict_get_or blk ''time'' [] ! i)"
  by (auto simp: rbind_def subscript_def list_index_def dict_get_or_def split: option.splits)

lemma hourly_item_total:
  "i < length (dict_get_or hourly ''time'' []) \<Longrightarrow>
   hourly_item hourly i = Inr (hourly_of hourly i)"
  by (simp add: hourly_item_def hourly_of_def metric_at_total time_at rbind_Inr)

lemma daily_item_total:
  "i < length (dict_get_or daily ''time'' []) \<Longrightarrow> daily_item daily i = Inr (daily_of daily i)"
  by (simp add: daily_item_def daily_of_def metric_at_total time_at rbind_Inr)

lemma format_hourly_total:
  "format_hourly hourly =
     Inr (map (hourly_of hourly) [0 ..< min 24 (length (dict_get_or hourly ''time'' []))])"
proof (cases "hourly ''time''")
  case None
  then show ?thesis by (simp add: format_hourly_def dict_get_or_def)
next
  case (Some ts)
  have "for_append (hourly_item hourly) [0 ..< min 24 (length ts)] []
        = Inr ([] @ map (hourly_of hourly) [0 ..< min 24 (length ts)])"
    by (rule for_append_map) (simp add: hourly_item_total dict_get_or_def Some)
  with Some show ?thesis
    by (simp add: format_hourly_def dict_get_or_def subscript_def rbind_def)
qed

lemma format_daily_total:
  "format_daily daily =
     Inr (map (daily_of daily) [0 ..< length (dict_get_or daily ''time'' [])])"
proof (cases "daily ''time''")
  case None
  then show ?thesis by (simp add: format_daily_def dict_get_or_def)
next
  case (Some ts)
  have "for_append (daily_item daily) [0 ..< length ts] []
        = Inr ([] @ map (daily_of daily) [0 ..< length ts])"
    by (rule for_append_map) (simp add: daily_item_total dict_get_or_def Some)
  with Some show ?thesis
    by (simp add: format_daily_def dict_get_or_def subscript_def rbind_def)
qed

lemma metric_array_block: "metric_array blk k = dict_get_or (block_of blk) k []"
  by (simp add: metric_array_def block_of_def dict_get_or_def split: option.splits)

lemma format_weather_data_total:
  "\<exists>out. format_weather_data raw = Inr out \<and>
     wd_hourly_forecast out =
       map (hourly_of (block_of (rd_hourly raw)))
         [0 ..< min 24 (length (metric_array (rd_hourly raw) ''time''))] \<and>
     wd_daily_forecast out =
       map (daily_of (block_of (rd_daily raw)))
         [0 ..< length (metric_array (rd_daily raw) ''time'')]"
  by (simp add: format_weather_data_def format_hourly_total format_daily_total rbind_Inr
      metric_array_block block_of_def Let_def)





text \<open>
  Claim C4. The normalizer returns for every response; its hourly forecast has
  min(24, n) entries for n entries in the hourly time array, and its daily forecast has
  as many entries as the daily time array, with no cap. A missing time array counts as
  an empty one.
\<close>

theorem format_weather_data_lengths:
  "\<exists>out. format_weather_data raw = Inr out \<and>
     length (wd_hourly_forecast out) = min 24 (length (metric_array (rd_hourly raw) ''time'')) \<and>
     length (wd_daily_forecast out) = length (metric_array (rd_daily raw) ''time'')"
proof -
  obtain out where "format_weather_data raw = Inr out"
    and "wd_hourly_forecast out =
       map (hourly_of (block_of (rd_hourly raw)))
         [0 ..< min 24 (length (metric_array (rd_hourly raw) ''time''))]"
    and "wd_daily_forecast out =
       map (daily_of (block_of (rd_daily raw)))
         [0 ..< length (metric_array (rd_daily raw) ''time'')]"
    using format_weather_data_total by blast
  then show ?thesis by simp
qed

theorem format_weather_data_lengths_witness:
  "\<exists>out. format_weather_data long_response = Inr out \<and>
     length (wd_hourly_forecast out) = 24 \<and> length (wd_daily_forecast out) = 9"
proof -
  obtain out where "format_weather_data long_response = Inr out"
    and "length (wd_hourly_forecast out)
           = min 24 (length (metric_array (rd_hourly long_response) ''time''))"
    and "length (wd_daily_forecast out) = length (metric_array (rd_daily long_response) ''time'')"
    using format_weather_data_lengths[of long_response] by blast
  then show ?thesis
    by (simp add: metric_array_def long_response_def)
qed

section \<open>Properties of the city search\<close>

lemma for_append_nth:
  "for_append (\<lambda>i. Inr (g (rs ! i))) [0 ..< length rs] [] = Inr (map g rs)"
proof -
  have "for_append (\<lambda>i. Inr (g (rs ! i))) [0 ..< length rs] []
        = Inr ([] @ map (\<lambda>i. g (rs ! i)) [0 ..< length rs])"
    by (rule for_append_map) simp
  moreover have "map (\<lambda>i. g (rs ! i)) [0 ..< length rs] = map g rs"
    by (rule nth_equalityI) simp_all
  ultimately show ?thesis by simp
qed

lemma search_cities_ok:
  assumes "geocoding (search_params q) = Inr data"
  shows "search_cities geocoding q sent
           = (Inr (map city_of_result (results_of data)), sent @ [search_params q])"
proof (cases "gd_results data")
  case None
  with assms show ?thesis by (simp add: search_cities_def results_of_def Let_def)
next
  case (Some rs)
  with assms show ?thesis
    by (simp add: search_cities_def results_of_def Let_def for_append_nth)
qed

text \<open>
  Claim C6, as amended. \<^verbatim>\<open>search_cities\<close> asks the provider for 10 matches
  (\<^verbatim>\<open>count = 10\<close>) and returns one city for every match of the response, without
  cutting the list: the result is as long as the response's list of matches, hence at
  most 10 whenever the provider keeps to the requested count.
\<close>

theorem search_cities_length:
  "geocoding (search_params q) = Inr data \<Longrightarrow>
   gp_count (search_params q) = 10 \<and>
   (\<exists>cs. fst (search_cities geocoding q sent) = Inr cs \<and>
         length cs = length (results_of data) \<and>
         (length (results_of data) \<le> gp_count (search_params q) \<longrightarrow> length cs \<le> 10))"
  by (simp add: search_cities_ok) (simp add: search_params_def)

text \<open>
  Claim C6 as stated fails: for a response with 11 matches the result has 11 cities.
\<close>

theorem search_cities_cap_counterexample:
  "(case fst (search_cities eleven_matches (ustr ''Springfield'') []) of
      Inl e \<Rightarrow> False
    | Inr cs \<Rightarrow> length cs = 11 \<and> \<not> length cs \<le> 10)"
proof -
  have "eleven_matches (search_params (ustr ''Springfield''))
          = Inr \<lparr>gd_results = Some (replicate 11 [''name'' \<mapsto> JStr ''Springfield''])\<rparr>"
    by (simp add: eleven_matches_def)
  from search_cities_ok[where geocoding = eleven_matches and q = "ustr ''Springfield''"
      and sent = "[]", OF this]
  show ?thesis
    by (simp add: results_of_def)
qed

theorem search_cities_length_witness:
  "gp_count (search_params (ustr ''Springfield'')) = 10 \<and>
   (\<exists>cs. fst (search_cities eleven_matches (ustr ''Springfield'') []) = Inr cs \<and> length cs = 11)"
proof -
  have e: "eleven_matches (search_params (ustr ''Springfield''))
          = Inr \<lparr>gd_results = Some (replicate 11 [''name'' \<mapsto> JStr ''Springfield''])\<rparr>"
    by (simp add: eleven_matches_def)
  from search_cities_length[where geocoding = eleven_matches and q = "ustr ''Springfield''"
      and sent = "[]", OF e]
  show ?thesis
    by (auto simp: results_of_def)
qed

lemma strip_idem: "strip (strip s) = strip s"
proof -
  let ?a = "dropWhile is_space s"
  let ?b = "dropWhile is_space (rev ?a)"
  have 1: "dropWhile is_space (rev ?b) = rev ?b"
  proof (cases "rev ?b")
    case Nil
    then have "dropWhile is_space (rev ?b) = []" by (simp only: dropWhile.simps)
    with Nil show ?thesis by (simp only:)
  next
    case (Cons x xs)
    have "?b \<noteq> []" using Cons by auto
    then have nb: "\<not> is_space (hd ?b)" by (simp add: hd_dropWhile)
    have sub: "\<exists>ys. rev ?a = ys @ ?b" by (metis takeWhile_dropWhile_id)
    then obtain ys where ys: "rev ?a = ys @ ?b" by blast
    then have "?a = rev ?b @ rev ys" by (metis rev_append rev_rev_ident)
    then have "hd ?a = x" using Cons by simp
    moreover have "?a \<noteq> []" using \<open>?a = rev ?b @ rev ys\<close> Cons by auto
    then have "\<not> is_space (hd ?a)" by (simp add: hd_dropWhile)
    ultimately have "\<not> is_space x" by simp
    then show ?thesis using Cons by simp
  qed
  have 2: "dropWhile is_space (rev (rev ?b)) = ?b"
    by simp
  show ?thesis
    unfolding strip_def[of "rev ?b"] strip_def[of s] using 1 2 by simp
qed

lemma surrogate_validator_passes:
  "surrogate_characters_validator v = [] \<longleftrightarrow> \<not> list_ex is_surrogate v"
proof (cases "filter is_surrogate v")
  case Nil
  then show ?thesis
    by (simp add: surrogate_characters_validator_def list_ex_iff filter_empty_conv)
next
  case (Cons c cs)
  have "c \<in> set (filter is_surrogate v)" unfolding Cons by simp
  then have "\<exists>x \<in> set v. is_surrogate x" by auto
  with Cons show ?thesis
    by (simp add: surrogate_characters_validator_def list_ex_iff)
qed

lemma run_validators_ok:
  "run_validators v = Inr v \<longleftrightarrow> length v \<le> 200 \<and> \<not> has_prohibited_character v"
  by (auto simp: run_validators_def max_length_validator_def null_characters_validator_def
      surrogate_validator_passes has_prohibited_character_def Let_def)

lemma run_validators_error:
  "run_validators v \<noteq> Inr v \<Longrightarrow> \<exists>ms. run_validators v = Inl (ValidationErrors ms)"
  by (simp add: run_validators_def Let_def split: if_splits)

lemma city_search_is_valid_ok:
  assumes "2 \<le> length (strip q)" "length (strip q) \<le> 200"
    "\<not> has_prohibited_character (strip q)"
  shows "city_search_is_valid (Some q) = Inr (strip q)"
proof -
  from assms have "run_validators (strip q) = Inr (strip q)" by (simp add: run_validators_ok)
  moreover from assms(1) have "strip q \<noteq> []" by auto
  ultimately show ?thesis using assms(1)
    by (simp add: city_search_is_valid_def query_field_def validate_query_def rbind_def
        strip_idem)
qed

lemma city_search_is_valid_error:
  assumes "length (strip q) < 2 \<or> 200 < length (strip q) \<or> has_prohibited_character (strip q)"
  shows "\<exists>e. is_validation_error e \<and> city_search_is_valid (Some q) = Inl e"
proof (cases "strip q = []")
  case True
  then show ?thesis
    by (simp add: city_search_is_valid_def query_field_def rbind_def is_validation_error_def)
next
  case False
  show ?thesis
  proof (cases "run_validators (strip q) = Inr (strip q)")
    case True
    with assms have "length (strip q) < 2" by (simp add: run_validators_ok)
    with True False show ?thesis
      by (simp add: city_search_is_valid_def query_field_def validate_query_def rbind_def
          strip_idem is_validation_error_def)
  next
    case F: False
    from run_validators_error[OF this] obtain ms where
      "run_validators (strip q) = Inl (ValidationErrors ms)" ..
    with False show ?thesis
      by (simp add: city_search_is_valid_def query_field_def rbind_def is_validation_error_def)
  qed
qed

lemma search_cities_logs: "snd (search_cities geocoding q sent) = sent @ [search_params q]"
  by (simp add: search_cities_def Let_def split: sum.splits py_error.splits option.splits)

lemma city_search_post_valid:
  assumes "2 \<le> length (strip q)" "length (strip q) \<le> 200"
    "\<not> has_prohibited_character (strip q)"
  shows "snd (city_search_post geocoding (Some q) sent) = sent @ [search_params (strip q)]"
    and "\<forall>e. fst (city_search_post geocoding (Some q) sent) \<noteq> Response400 e"
proof -
  note v = city_search_is_valid_ok[OF assms]
  obtain r l where rl: "search_cities geocoding (strip q) sent = (r, l)"
    by (cases "search_cities geocoding (strip q) sent")
  with search_cities_logs[of geocoding "strip q" sent] have l: "l = sent @ [search_params (strip q)]"
    by simp
  show "snd (city_search_post geocoding (Some q) sent) = sent @ [search_params (strip q)]"
    using v rl l by (cases r) (simp_all add: city_search_post_def)
  show "\<forall>e. fst (city_search_post geocoding (Some q) sent) \<noteq> Response400 e"
    using v rl by (cases r) (simp_all add: city_search_post_def)
qed

lemma city_search_post_invalid:
  assumes "length (strip q) < 2 \<or> 200 < length (strip q) \<or> has_prohibited_character (strip q)"
  shows "\<exists>e. is_validation_error e \<and>
           city_search_post geocoding (Some q) sent = (Response400 e, sent)"
proof -
  from city_search_is_valid_error[OF assms] obtain e where
    "is_validation_error e" "city_search_is_valid (Some q) = Inl e" by blast
  then show ?thesis by (auto simp: city_search_post_def)
qed

text \<open>
  Claim C5, as amended. A query is rejected with a validation error, and no geocoding
  request is sent, if and only if after trimming it has fewer than 2 characters, or more
  than 200, or contains a character that the field prohibits (the null character or a
  surrogate); every query with 2 to 200 trimmed characters, none of them prohibited,
  sends exactly one geocoding request, for the trimmed query.
\<close>

theorem city_search_post_rejects_iff:
  "((\<exists>e. is_validation_error e \<and>
         fst (city_search_post geocoding (Some q) sent) = Response400 e)
      \<longleftrightarrow> (length (strip q) < 2 \<or> 200 < length (strip q) \<or>
           has_prohibited_character (strip q))) \<and>
   (length (strip q) < 2 \<or> 200 < length (strip q) \<or> has_prohibited_character (strip q)
      \<longrightarrow> snd (city_search_post geocoding (Some q) sent) = sent) \<and>
   (2 \<le> length (strip q) \<and> length (strip q) \<le> 200 \<and> \<not> has_prohibited_character (strip q)
      \<longrightarrow> snd (city_search_post geocoding (Some q) sent) = sent @ [search_params (strip q)])"
proof (intro conjI iffI impI)
  assume "\<exists>e. is_validation_error e \<and>
            fst (city_search_post geocoding (Some q) sent) = Response400 e"
  then show "length (strip q) < 2 \<or> 200 < length (strip q) \<or>
             has_prohibited_character (strip q)"
    using city_search_post_valid(2)[of q geocoding sent] by fastforce
next
  assume "length (strip q) < 2 \<or> 200 < length (strip q) \<or> has_prohibited_character (strip q)"
  from city_search_post_invalid[OF this, of geocoding sent]
  show "\<exists>e. is_validation_error e \<and>
          fst (city_search_post geocoding (Some q) sent) = Response400 e"
    by auto
next
  assume "length (strip q) < 2 \<or> 200 < length (strip q) \<or> has_prohibited_character (strip q)"
  from city_search_post_invalid[OF this, of geocoding sent]
  show "snd (city_search_post geocoding (Some q) sent) = sent"
    by auto
next
  assume "2 \<le> length (strip q) \<and> length (strip q) \<le> 200 \<and>
          \<not> has_prohibited_character (strip q)"
  then show "snd (city_search_post geocoding (Some q) sent) = sent @ [search_params (strip q)]"
    using city_search_post_valid(1) by blast
qed

lemma length_ustr: "length (ustr s) = length s"
  by (simp add: ustr_def)

lemma strip_replicate_a: "strip (replicate n 97) = replicate n 97"
  by (simp add: strip_def is_space_def)

lemma strip_null_query: "strip null_query = null_query"
  by (simp add: strip_def is_space_def null_query_def)

lemma run_validators_long: "run_validators (replicate 201 97)
    = Inl (ValidationErrors [''Ensure this field has no more than 200 characters.''])"
  by (simp add: run_validators_def max_length_validator_def null_characters_validator_def
      surrogate_characters_validator_def is_surrogate_def Let_def)

lemma run_validators_null: "run_validators null_query
    = Inl (ValidationErrors [''Null characters are not allowed.''])"
  by (simp add: run_validators_def max_length_validator_def null_characters_validator_def
      surrogate_characters_validator_def is_surrogate_def Let_def null_query_def)

text \<open>
  Claim C5 as stated fails: a query of 201 letters, and the three-character query with
  a null character between two letters, have at least 2 trimmed characters and are
  rejected by the field's validators, with no geocoding request.
\<close>

theorem city_search_post_long_query_counterexample:
  "\<not> length (strip (replicate 201 97)) < 2 \<and>
   city_search_post eleven_matches (Some (replicate 201 97)) []
     = (Response400
          (ValidationErrors [''Ensure this field has no more than 200 characters.'']), []) \<and>
   \<not> length (strip null_query) < 2 \<and>
   city_search_post eleven_matches (Some null_query) []
     = (Response400 (ValidationErrors [''Null characters are not allowed.'']), [])"
proof -
  have 1: "city_search_post eleven_matches (Some (replicate 201 97)) []
     = (Response400
          (ValidationErrors [''Ensure this field has no more than 200 characters.'']), [])"
    by (simp add: city_search_post_def city_search_is_valid_def query_field_def
        strip_replicate_a run_validators_long rbind_def)
  have n: "null_query \<noteq> []" by (simp add: null_query_def)
  have 2: "city_search_post eleven_matches (Some null_query) []
     = (Response400 (ValidationErrors [''Null characters are not allowed.'']), [])"
    by (simp add: city_search_post_def city_search_is_valid_def query_field_def
        strip_null_query run_validators_null rbind_def n)
  have 3: "\<not> length (strip (replicate 201 97)) < 2" by (simp add: strip_replicate_a)
  have 4: "\<not> length (strip null_query) < 2"
    by (simp add: strip_null_query) (simp add: null_query_def)
  from 1 2 3 4 show ?thesis by blast
qed

theorem city_search_post_rejects_iff_witness:
  "snd (city_search_post eleven_matches (Some (ustr ''  London '')) [])
     = [search_params (ustr ''London'')] \<and>
   snd (city_search_post eleven_matches (Some (ustr ''L'')) []) = [] \<and>
   (\<exists>e. is_validation_error e \<and>
        fst (city_search_post eleven_matches (Some (ustr ''L'')) []) = Response400 e)"
proof -
  have s: "strip (ustr ''  London '') = ustr ''London''" "strip (ustr ''L'') = ustr ''L''"
    by (simp_all add: strip_def is_space_def ustr_def)
  have p: "\<not> has_prohibited_character (ustr ''London'')"
    by (simp add: has_prohibited_character_def is_surrogate_def ustr_def)
  from city_search_post_rejects_iff[of eleven_matches "ustr ''  London ''" "[]"] p
  have 1: "snd (city_search_post eleven_matches (Some (ustr ''  London '')) [])
             = [search_params (ustr ''London'')]"
    by (simp add: s length_ustr)
  from city_search_post_rejects_iff[of eleven_matches "ustr ''L''" "[]"]
  have 2: "snd (city_search_post eleven_matches (Some (ustr ''L'')) []) = [] \<and>
   (\<exists>e. is_validation_error e \<and>
        fst (city_search_post eleven_matches (Some (ustr ''L'')) []) = Response400 e)"
    by (simp add: s length_ustr)
  from 1 2 show ?thesis by blast
qed

section \<open>Properties of the search ledger\<close>

lemma next_id_fresh: "next_id ids \<notin> set ids"
proof
  assume "next_id ids \<in> set ids"
  then have "next_id ids \<le> Max (set (0 # ids))" by simp
  also have "\<dots> = fold max ids 0" by (simp only: Max.set_eq_fold)
  finally show False by (simp add: next_id_def)
qed

lemma objects_get_Nil: "filter p rows = [] \<Longrightarrow> objects_get p rows = Inl DoesNotExist"
  by (simp add: objects_get_def)

lemma objects_get_single: "filter p rows = [r] \<Longrightarrow> objects_get p rows = Inr r"
  by (simp add: objects_get_def)

lemma get_or_create_city_new:
  "city_rows_for db cd = [] \<Longrightarrow>
   get_or_create_city db cd = (Inr (new_city db cd, True), db\<lparr>cities := cities db @ [new_city db cd]\<rparr>)"
  by (simp add: get_or_create_city_def city_rows_for_def objects_get_Nil new_city_def Let_def)

lemma get_or_create_city_old:
  "city_rows_for db cd = [c] \<Longrightarrow> get_or_create_city db cd = (Inr (c, False), db)"
  by (simp add: get_or_create_city_def city_rows_for_def objects_get_single)

lemma get_or_create_search_new:
  "search_rows_for db (u_id user) (c_id city) = [] \<Longrightarrow>
   get_or_create_search db now user city
     = (Inr (new_search db now user city, True),
        db\<lparr>searches := searches db @ [new_search db now user city]\<rparr>)"
  by (simp add: get_or_create_search_def search_rows_for_def objects_get_Nil new_search_def Let_def)

lemma get_or_create_search_old:
  "search_rows_for db (u_id user) (c_id city) = [s] \<Longrightarrow>
   get_or_create_search db now user city = (Inr (s, False), db)"
  by (simp add: get_or_create_search_def search_rows_for_def objects_get_single)


lemma distinct_filter_le1:
  "distinct (map f xs) \<Longrightarrow> filter (\<lambda>x. f x = k) xs = [] \<or> (\<exists>x. filter (\<lambda>x. f x = k) xs = [x])"
proof (induction xs)
  case Nil
  then show ?case by simp
next
  case (Cons a xs)
  show ?case
  proof (cases "f a = k")
    case True
    with Cons.prems have "k \<notin> f ` set xs" by auto
    then have "filter (\<lambda>x. f x = k) xs = []" by (auto simp: filter_empty_conv)
    with True show ?thesis by simp
  next
    case False
    with Cons show ?thesis by simp
  qed
qed

lemma city_matches_key:
  "city_matches cd c \<longleftrightarrow>
   city_key c = (cd_name cd, cd_country cd, cd_latitude cd, cd_longitude cd)"
  by (auto simp: city_matches_def city_key_def)

lemma city_rows_cases:
  assumes "store_ok db"
  shows "city_rows_for db cd = [] \<or> (\<exists>c. city_rows_for db cd = [c])"
proof -
  from assms have "distinct (map city_key (cities db))" by (simp add: store_ok_def)
  moreover have "city_matches cd
      = (\<lambda>c. city_key c = (cd_name cd, cd_country cd, cd_latitude cd, cd_longitude cd))"
    by (simp add: fun_eq_iff city_matches_key)
  ultimately show ?thesis
    using distinct_filter_le1[of city_key "cities db"
        "(cd_name cd, cd_country cd, cd_latitude cd, cd_longitude cd)"]
    by (simp add: city_rows_for_def)
qed

lemma filter_singleD:
  assumes "filter p xs = [x]"
  shows "x \<in> set xs \<and> p x"
proof -
  have "x \<in> set (filter p xs)" unfolding assms by simp
  then show ?thesis by simp
qed

lemma first_search:
  assumes ok: "store_ok db"
    and np: "\<forall>c \<in> set (city_rows_for db cd). search_rows_for db (u_id user) (c_id c) = []"
  shows "\<exists>c s db1. save_search db now user cd = (Inr s, db1) \<and>
           city_rows_for db1 cd = [c] \<and>
           search_rows_for db1 (u_id user) (c_id c) = [s] \<and>
           s_search_count s = 1 \<and> store_ok db1"
proof -
  from city_rows_cases[OF ok, of cd]
  consider (new) "city_rows_for db cd = []" | (old) c where "city_rows_for db cd = [c]" by blast
  then show ?thesis
  proof cases
    case new
    let ?c = "new_city db cd"
    let ?db1 = "db\<lparr>cities := cities db @ [?c]\<rparr>"
    have cid: "c_id ?c \<notin> set (map c_id (cities db))"
      by (simp only: new_city_def city_row.simps next_id_fresh not_False_eq_True)
    have fk: "list_all (\<lambda>s. s_city s \<in> set (map c_id (cities db))) (searches db)"
      using ok by (simp add: store_ok_def)
    have dangling: "s_city s \<noteq> c_id ?c" if "s \<in> set (searches db)" for s
    proof
      assume e: "s_city s = c_id ?c"
      from fk that have "s_city s \<in> set (map c_id (cities db))" by (simp add: list_all_iff)
      with e cid show False by simp
    qed
    have none: "search_rows_for ?db1 (u_id user) (c_id ?c) = []"
      using dangling by (simp add: search_rows_for_def filter_empty_conv)
    let ?s = "new_search ?db1 now user ?c"
    let ?db2 = "?db1\<lparr>searches := searches ?db1 @ [?s]\<rparr>"
    have m: "city_matches cd ?c" by (simp add: city_matches_def new_city_def)
    have run: "save_search db now user cd = (Inr ?s, ?db2)"
      by (simp add: save_search_def get_or_create_city_new[OF new]
          get_or_create_search_new[OF none])
    have rows: "city_rows_for ?db2 cd = [?c]"
      using new m by (simp add: city_rows_for_def)
    have srows: "search_rows_for ?db2 (u_id user) (c_id ?c) = [?s]"
      using none by (simp add: search_rows_for_def new_search_def)
    have sid: "s_id ?s \<notin> set (map s_id (searches db))"
      using next_id_fresh[of "map s_id (searches db)"] by (simp add: new_search_def)
    have key: "city_key ?c \<notin> set (map city_key (cities db))"
    proof
      assume "city_key ?c \<in> set (map city_key (cities db))"
      then obtain c' where "c' \<in> set (cities db)" "city_key c' = city_key ?c" by auto
      with m have "c' \<in> set (city_rows_for db cd)"
        by (simp add: city_rows_for_def city_matches_key)
      with new show False by simp
    qed
    have pair: "(u_id user, c_id ?c) \<notin> set (map (\<lambda>s. (s_user s, s_city s)) (searches db))"
    proof
      assume "(u_id user, c_id ?c) \<in> set (map (\<lambda>s. (s_user s, s_city s)) (searches db))"
      then obtain s where "s \<in> set (searches db)" "s_city s = c_id ?c" by auto
      with dangling show False by blast
    qed
    have ok2: "store_ok ?db2"
      using ok cid sid key pair
      by (auto simp: store_ok_def new_search_def list_all_iff)
    have "s_search_count ?s = 1" by (simp add: new_search_def)
    with run rows srows ok2 show ?thesis by blast
  next
    case old
    then have cin: "c \<in> set (cities db)" and m: "city_matches cd c"
      using filter_singleD[of "city_matches cd" "cities db" c] by (simp_all add: city_rows_for_def)
    from np old have none: "search_rows_for db (u_id user) (c_id c) = []" by simp
    let ?s = "new_search db now user c"
    let ?db2 = "db\<lparr>searches := searches db @ [?s]\<rparr>"
    have run: "save_search db now user cd = (Inr ?s, ?db2)"
      by (simp add: save_search_def get_or_create_city_old[OF old]
          get_or_create_search_new[OF none])
    have rows: "city_rows_for ?db2 cd = [c]"
      using old by (simp add: city_rows_for_def)
    have srows: "search_rows_for ?db2 (u_id user) (c_id c) = [?s]"
      using none by (simp add: search_rows_for_def new_search_def)
    have sid: "s_id ?s \<notin> set (map s_id (searches db))"
      using next_id_fresh[of "map s_id (searches db)"] by (simp add: new_search_def)
    have pair: "(u_id user, c_id c) \<notin> set (map (\<lambda>s. (s_user s, s_city s)) (searches db))"
      using none by (auto simp: search_rows_for_def filter_empty_conv)
    have ok2: "store_ok ?db2"
      using ok cin sid pair
      by (auto simp: store_ok_def new_search_def list_all_iff)
    have "s_search_count ?s = 1" by (simp add: new_search_def)
    with run rows srows ok2 show ?thesis by blast
  qed
qed

lemma bump_fields:
  "s_id (bump s now) = s_id s" "s_user (bump s now) = s_user s" "s_city (bump s now) = s_city s"
  "s_search_count (bump s now) = s_search_count s + 1"
  by (simp_all add: bump_def)

lemma same_id_same_row:
  assumes "distinct (map s_id rows)" "s \<in> set rows" "r \<in> set rows" "s_id r = s_id s"
  shows "r = s"
  using assms by (meson distinct_map inj_onD)

lemma save_row_frame:
  assumes d: "distinct (map s_id (searches db))" and s: "s \<in> set (searches db)"
    and r: "r \<in> set (searches db)"
  shows "s_id (if s_id r = s_id (bump s now) then bump s now else r) = s_id r"
    and "s_user (if s_id r = s_id (bump s now) then bump s now else r) = s_user r"
    and "s_city (if s_id r = s_id (bump s now) then bump s now else r) = s_city r"
proof -
  have "r = s" if "s_id r = s_id (bump s now)"
    using same_id_same_row[OF d s r] that by (simp add: bump_def)
  then show "s_id (if s_id r = s_id (bump s now) then bump s now else r) = s_id r"
    and "s_user (if s_id r = s_id (bump s now) then bump s now else r) = s_user r"
    and "s_city (if s_id r = s_id (bump s now) then bump s now else r) = s_city r"
    by (auto simp: bump_def)
qed

lemma repeat_search:
  assumes ok: "store_ok db"
    and rows: "city_rows_for db cd = [c]"
    and srows: "search_rows_for db (u_id user) (c_id c) = [s]"
  shows "save_search db now user cd = (Inr (bump s now), save_row db (bump s now))"
    and "city_rows_for (save_row db (bump s now)) cd = [c]"
    and "search_rows_for (save_row db (bump s now)) (u_id user) (c_id c) = [bump s now]"
    and "store_ok (save_row db (bump s now))"
proof -
  let ?s' = "bump s now"
  let ?upd = "\<lambda>r. if s_id r = s_id ?s' then ?s' else r"
  let ?p = "\<lambda>r. s_user r = u_id user \<and> s_city r = c_id c"
  have d: "distinct (map s_id (searches db))" using ok by (simp add: store_ok_def)
  have sin: "s \<in> set (searches db)" and ps: "?p s"
    using filter_singleD[of ?p "searches db" s] srows by (simp_all add: search_rows_for_def)
  note fr = save_row_frame[OF d sin]
  show "save_search db now user cd = (Inr ?s', save_row db ?s')"
    by (simp add: save_search_def get_or_create_city_old[OF rows]
        get_or_create_search_old[OF srows] bump_def Let_def)
  show "city_rows_for (save_row db ?s') cd = [c]"
    using rows by (simp add: city_rows_for_def save_row_def)
  have "filter ?p (map ?upd (searches db)) = map ?upd (filter (?p \<circ> ?upd) (searches db))"
    by (simp only: filter_map)
  also have "filter (?p \<circ> ?upd) (searches db) = filter ?p (searches db)"
    by (rule filter_cong) (simp_all add: fr del: if_split cong: if_cong)
  also have "filter ?p (searches db) = [s]" using srows by (simp add: search_rows_for_def)
  finally show "search_rows_for (save_row db ?s') (u_id user) (c_id c) = [?s']"
    by (simp add: search_rows_for_def save_row_def bump_fields)
  have m1: "map s_id (map ?upd (searches db)) = map s_id (searches db)"
    by (simp add: fr del: if_split cong: if_cong)
  have m2: "map (\<lambda>s. (s_user s, s_city s)) (map ?upd (searches db))
              = map (\<lambda>s. (s_user s, s_city s)) (searches db)"
    by (simp add: fr del: if_split cong: if_cong)
  have m3: "list_all (\<lambda>s. s_city s \<in> set (map c_id (cities db))) (map ?upd (searches db))
              = list_all (\<lambda>s. s_city s \<in> set (map c_id (cities db))) (searches db)"
  proof -
    have e: "list_all (\<lambda>s. s_city s \<in> A) xs = list_all (\<lambda>x. x \<in> A) (map s_city xs)"
      for A and xs :: "search_row list"
      by (induction xs) simp_all
    have "map s_city (map ?upd (searches db)) = map s_city (searches db)"
      by (simp add: fr del: if_split cong: if_cong)
    then show ?thesis by (simp only: e)
  qed
  have c: "cities (save_row db ?s') = cities db"
    and se: "searches (save_row db ?s') = map ?upd (searches db)"
    by (simp_all add: save_row_def)
  show "store_ok (save_row db ?s')"
    unfolding store_ok_def c se m1 m2 m3 using ok[unfolded store_ok_def] .
qed

text \<open>
  Claim C1. In a store that satisfies the storage constraints and holds no search row
  of this session for the city, two calls of \<^verbatim>\<open>save_search\<close> with the same attributes
  both return; afterwards exactly one city row has the tuple (name, country, latitude,
  longitude), exactly one search row belongs to the (session, city) pair, and that row
  is the one returned, with \<^verbatim>\<open>search_count\<close> 2.
\<close>

theorem save_search_twice:
  assumes "store_ok db"
    and "\<forall>c \<in> set (city_rows_for db cd). search_rows_for db (u_id user) (c_id c) = []"
  shows "\<exists>s1 db1 s2 db2 c.
           save_search db t1 user cd = (Inr s1, db1) \<and>
           save_search db1 t2 user cd = (Inr s2, db2) \<and>
           city_rows_for db2 cd = [c] \<and>
           search_rows_for db2 (u_id user) (c_id c) = [s2] \<and>
           s_search_count s2 = 2"
proof -
  from first_search[OF assms, of t1] obtain c s1 db1 where
    1: "save_search db t1 user cd = (Inr s1, db1)"
    and rows: "city_rows_for db1 cd = [c]"
    and srows: "search_rows_for db1 (u_id user) (c_id c) = [s1]"
    and cnt: "s_search_count s1 = 1" and ok1: "store_ok db1"
    by blast
  note r = repeat_search[OF ok1 rows srows, of t2]
  have "s_search_count (bump s1 t2) = 2" using cnt by (simp add: bump_def)
  with 1 r(1,2,3) show ?thesis by blast
qed

theorem save_search_twice_witness:
  "store_ok empty_store \<and>
   (\<exists>s1 db1 s2 db2 c.
      save_search empty_store 1 test_user london = (Inr s1, db1) \<and>
      save_search db1 2 test_user london = (Inr s2, db2) \<and>
      city_rows_for db2 london = [c] \<and>
      search_rows_for db2 (u_id test_user) (c_id c) = [s2] \<and>
      s_search_count s2 = 2)"
proof -
  have ok: "store_ok empty_store" by (simp add: store_ok_def empty_store_def)
  have np: "\<forall>c \<in> set (city_rows_for empty_store london).
              search_rows_for empty_store (u_id test_user) (c_id c) = []"
    by (simp add: city_rows_for_def empty_store_def)
  from save_search_twice[OF ok np, of 1 2] ok show ?thesis by blast
qed




section \<open>Properties of the weather request\<close>

text \<open>
  Claim C10. A weather request without a city id whose latitude or longitude is 0.0 is
  rejected with the validation error: the presence check is Python's truth value, and
  zero is false like a missing field. The store is left as it was and no forecast
  request is sent.
\<close>

theorem weather_post_zero_coordinate:
  "wr_city_id data = None \<Longrightarrow> wr_latitude data = Some 0 \<or> wr_longitude data = Some 0 \<Longrightarrow>
   weather_post forecast now fresh_key session data db sent
     = (Response400 (ValidationError
          ''Either city_id or both latitude and longitude must be provided''), db, sent)"
  by (auto simp: weather_post_def validate_weather_request_def truthy_int_def truthy_float_def)

theorem weather_post_zero_coordinate_witness:
  "weather_post empty_forecast 0 ''key'' None zero_request empty_store []
     = (Response400 (ValidationError
          ''Either city_id or both latitude and longitude must be provided''), empty_store, [])"
proof -
  have a: "wr_city_id zero_request = None" by (simp add: zero_request_def)
  have b: "wr_latitude zero_request = Some 0 \<or> wr_longitude zero_request = Some 0"
    by (simp add: zero_request_def)
  from weather_post_zero_coordinate[OF a b] show ?thesis .
qed

lemma get_or_create_user_ok:
  assumes "distinct (map u_session_key (users db))"
  shows "\<exists>u db1. get_or_create_user db now key = (Inr u, db1) \<and>
           cities db1 = cities db \<and> searches db1 = searches db"
proof -
  from distinct_filter_le1[OF assms, of key]
  consider "filter (\<lambda>u. u_session_key u = key) (users db) = []"
    | u where "filter (\<lambda>u. u_session_key u = key) (users db) = [u]" by blast
  then show ?thesis
  proof cases
    case 1
    then show ?thesis by (simp add: get_or_create_user_def objects_get_Nil Let_def)
  next
    case 2
    then show ?thesis by (simp add: get_or_create_user_def objects_get_single)
  qed
qed

text \<open>
  Claim C8, as amended. A weather request that carries a city id other than 0 which no
  persisted city has is answered with 404, which is not the 500 of an upstream failure;
  no forecast request is sent, and the city and search tables are left as they were.
  Session keys are unique in the user table, as the storage layer enforces.
\<close>

theorem weather_post_unknown_city:
  assumes "wr_city_id data = Some cid" and "cid \<noteq> 0"
    and "\<forall>c \<in> set (cities db). int (c_id c) \<noteq> cid"
    and "distinct (map u_session_key (users db))"
  shows "\<exists>db'. weather_post forecast now fresh_key session data db sent = (Response404, db', sent) \<and>
           cities db' = cities db \<and> searches db' = searches db \<and>
           (\<forall>e. fst (weather_post forecast now fresh_key session data db sent) \<noteq> Response500 e)"
proof -
  let ?key = "case session of None \<Rightarrow> fresh_key | Some k \<Rightarrow> if k = [] then fresh_key else k"
  from get_or_create_user_ok[OF assms(4), of now ?key] obtain u db1 where
    u: "get_or_create_user db now ?key = (Inr u, db1)"
    and c: "cities db1 = cities db" and s: "searches db1 = searches db" by blast
  have v: "validate_weather_request data = Inr data"
    using assms(1,2) by (simp add: validate_weather_request_def truthy_int_def)
  have "filter (\<lambda>c. int (c_id c) = cid) (cities db1) = []"
    using assms(3) c by (auto simp: filter_empty_conv)
  then have g: "objects_get (\<lambda>c. int (c_id c) = cid) (cities db1) = Inl DoesNotExist"
    by (rule objects_get_Nil)
  have "weather_post forecast now fresh_key session data db sent = (Response404, db1, sent)"
    using assms(1,2) by (simp add: weather_post_def v u g truthy_int_def Let_def)
  with c s show ?thesis by simp
qed

theorem weather_post_unknown_city_witness:
  "\<exists>db'. weather_post empty_forecast 0 ''key'' None unknown_city_request empty_store []
            = (Response404, db', []) \<and>
         cities db' = [] \<and> searches db' = []"
proof -
  have a: "wr_city_id unknown_city_request = Some 99999" by (simp add: unknown_city_request_def)
  have b: "(99999::int) \<noteq> 0" by simp
  have c: "\<forall>c \<in> set (cities empty_store). int (c_id c) \<noteq> 99999" by (simp add: empty_store_def)
  have d: "distinct (map u_session_key (users empty_store))" by (simp add: empty_store_def)
  from weather_post_unknown_city[OF a b c d, of empty_forecast 0 "''key''" None "[]"]
  show ?thesis by (auto simp: empty_store_def)
qed

text \<open>
  Claim C8 as stated fails for the city id 0: the view tests the id's truth value, so
  with coordinates in the request it fetches the forecast for them instead of looking
  the city up, although no city has the key 0.
\<close>

theorem weather_post_zero_id_counterexample:
  "wr_city_id zero_id_request = Some 0 \<and> cities empty_store = [] \<and>
   fst (weather_post empty_forecast 0 ''key'' None zero_id_request empty_store []) \<noteq> Response404 \<and>
   snd (snd (weather_post empty_forecast 0 ''key'' None zero_id_request empty_store []))
     = [(51.5074, - 0.1278)]"
  by (simp add: weather_post_def validate_weather_request_def truthy_int_def truthy_float_def
      zero_id_request_def empty_store_def get_or_create_user_def objects_get_def Let_def
      weather_reply_def get_weather_data_def empty_forecast_def
      split: prod.splits sum.splits)

section \<open>Properties of the popular-cities query\<close>

lemma searched_city_row:
  assumes ok: "store_ok db" and s: "s \<in> set (searches db)"
  shows "\<exists>c. cities_with_id db (s_city s) = [c]"
proof -
  from ok have d: "distinct (map c_id (cities db))"
    and fk: "list_all (\<lambda>s. s_city s \<in> set (map c_id (cities db))) (searches db)"
    by (simp_all add: store_ok_def)
  from fk s have "s_city s \<in> set (map c_id (cities db))" by (simp add: list_all_iff)
  then have "cities_with_id db (s_city s) \<noteq> []"
    by (auto simp: cities_with_id_def filter_empty_conv)
  with distinct_filter_le1[OF d, of "s_city s"] show ?thesis
    by (simp add: cities_with_id_def)
qed

lemma concat_singletons:
  "(\<And>x. x \<in> set xs \<Longrightarrow> \<exists>y. f x = [y]) \<Longrightarrow> concat (map f xs) = map (\<lambda>x. hd (f x)) xs"
proof (induction xs)
  case Nil
  then show ?case by simp
next
  case (Cons a xs)
  from Cons.prems[of a] obtain y where "f a = [y]" by auto
  with Cons show ?case by simp
qed

lemma search_city_join_rows:
  assumes "store_ok db"
  shows "search_city_join db = map (joined db) (searches db)"
proof -
  have "concat (map (\<lambda>s. map (\<lambda>c. (s, c)) (cities_with_id db (s_city s))) (searches db))
        = map (\<lambda>s. hd (map (\<lambda>c. (s, c)) (cities_with_id db (s_city s)))) (searches db)"
  proof (rule concat_singletons)
    fix s assume "s \<in> set (searches db)"
    from searched_city_row[OF assms this] obtain c where "cities_with_id db (s_city s) = [c]" ..
    then show "\<exists>y. map (\<lambda>c. (s, c)) (cities_with_id db (s_city s)) = [y]" by simp
  qed
  also have "\<dots> = map (joined db) (searches db)"
  proof (rule map_cong[OF refl])
    fix s assume "s \<in> set (searches db)"
    from searched_city_row[OF assms this] obtain c where "cities_with_id db (s_city s) = [c]" ..
    then show "hd (map (\<lambda>c. (s, c)) (cities_with_id db (s_city s))) = joined db s"
      by (simp add: joined_def)
  qed
  finally show ?thesis by (simp add: search_city_join_def cities_with_id_def)
qed

lemma key_of_city_eq: "key_of_city db a = key_of_city db b \<longleftrightarrow> a = b"
  by (auto simp: key_of_city_def)

lemma group_key_joined:
  assumes "store_ok db" "s \<in> set (searches db)"
  shows "group_key (joined db s) = key_of_city db (s_city s)"
proof -
  from searched_city_row[OF assms] obtain c where c: "cities_with_id db (s_city s) = [c]" ..
  then have "c_id c = s_city s"
    using filter_singleD[of "\<lambda>c. c_id c = s_city s" "cities db" c]
    by (simp add: cities_with_id_def)
  with c show ?thesis by (simp add: group_key_def joined_def key_of_city_def)
qed

lemma remdups_map_key: "remdups (map (key_of_city db) xs) = map (key_of_city db) (remdups xs)"
  by (induction xs) (auto simp: key_of_city_eq)

lemma group_keys:
  assumes "store_ok db"
  shows "remdups (map group_key (search_city_join db)) = map (key_of_city db) (searched_cities db)"
proof -
  have "map group_key (map (joined db) (searches db))
          = map (key_of_city db) (map s_city (searches db))"
    by (simp add: group_key_joined[OF assms])
  then show ?thesis
    by (simp only: search_city_join_rows[OF assms] remdups_map_key searched_cities_def)
qed

lemma annotate_summary:
  assumes "store_ok db"
  shows "annotate db (key_of_city db cid) = city_summary db cid"
proof -
  have "filter (\<lambda>j. group_key j = key_of_city db cid) (map (joined db) (searches db))
          = map (joined db) (filter ((\<lambda>j. group_key j = key_of_city db cid) \<circ> joined db) (searches db))"
    by (simp only: filter_map)
  also have "filter ((\<lambda>j. group_key j = key_of_city db cid) \<circ> joined db) (searches db)
          = filter (\<lambda>s. s_city s = cid) (searches db)"
    by (rule filter_cong) (simp_all add: group_key_joined[OF assms] key_of_city_eq)
  finally have grp: "filter (\<lambda>j. group_key j = key_of_city db cid) (search_city_join db)
          = map (joined db) (searches_of_city db cid)"
    by (simp add: search_city_join_rows[OF assms] searches_of_city_def)
  have f: "(\<lambda>j. s_search_count (fst j)) \<circ> joined db = s_search_count"
    "(\<lambda>j. s_user (fst j)) \<circ> joined db = s_user"
    by (simp_all add: fun_eq_iff joined_def)
  show ?thesis
    by (simp add: annotate_def grp Let_def city_summary_def f total_searches_of_def
        unique_users_of_def length_remdups_card_conv)
      (simp add: key_of_city_def image_image joined_def)
qed

lemma popular_groups_summary:
  assumes "store_ok db"
  shows "popular_groups db = map (city_summary db) (searched_cities db)"
  by (simp add: popular_groups_def group_keys[OF assms] annotate_summary[OF assms])

lemma city_summary_fields:
  "pc_city_id (city_summary db cid) = cid"
  "pc_total_searches (city_summary db cid) = total_searches_of db cid"
  "pc_unique_users (city_summary db cid) = unique_users_of db cid"
  by (simp_all add: city_summary_def)

lemma city_summary_city:
  assumes "store_ok db" "cid \<in> set (searched_cities db)"
  shows "\<exists>c \<in> set (cities db). c_id c = cid \<and>
           c_name c = pc_city_name (city_summary db cid) \<and>
           c_country c = pc_city_country (city_summary db cid)"
proof -
  from assms(2) obtain s where s: "s \<in> set (searches db)" "s_city s = cid"
    by (auto simp: searched_cities_def)
  from searched_city_row[OF assms(1) s(1)] s(2) obtain c where c: "cities_with_id db cid = [c]"
    by auto
  then have "c \<in> set (cities db) \<and> c_id c = cid"
    using filter_singleD[of "\<lambda>c. c_id c = cid" "cities db" c] by (simp add: cities_with_id_def)
  with c show ?thesis by (auto simp: city_summary_def)
qed

lemma popular_cities_sorted:
  assumes "store_ok db"
  shows "popular_cities db
           = take 10 (sort_key by_total (map (city_summary db) (searched_cities db)))"
  by (simp add: popular_cities_def popular_groups_summary[OF assms] by_total_def[abs_def])

lemma sort_key_desc:
  "sorted_wrt (\<lambda>a b. pc_total_searches b \<le> pc_total_searches a) (sort_key by_total xs)"
proof -
  have "sorted (map by_total (sort_key by_total xs))" by (rule sorted_sort_key)
  then have "sorted_wrt (\<lambda>a b. by_total a \<le> by_total b) (sort_key by_total xs)"
    by (simp only: sorted_map)
  then show ?thesis
    by (rule sorted_wrt_mono_rel[rotated]) (simp add: by_total_def)
qed

text \<open>
  Claim C9. For every persisted state (one that satisfies the storage constraints), the
  popular-cities query returns one row per city that has search rows, at most 10 of
  them; a row reports the sum of \<^verbatim>\<open>search_count\<close> over the city's search rows as
  \<^verbatim>\<open>total_searches\<close>, the number of distinct sessions among them as
  \<^verbatim>\<open>unique_users\<close>, and the city's name and country; the rows are in descending order
  of \<^verbatim>\<open>total_searches\<close>, and no city left out has a larger total than a city
  returned.
\<close>

theorem popular_cities_top_ten:
  assumes ok: "store_ok db"
  shows "length (popular_cities db) = min 10 (card (s_city ` set (searches db))) \<and>
         distinct (map pc_city_id (popular_cities db)) \<and>
         sorted_wrt (\<lambda>a b. pc_total_searches b \<le> pc_total_searches a) (popular_cities db) \<and>
         (\<forall>r \<in> set (popular_cities db).
            pc_city_id r \<in> s_city ` set (searches db) \<and>
            pc_total_searches r = total_searches_of db (pc_city_id r) \<and>
            pc_unique_users r = unique_users_of db (pc_city_id r) \<and>
            (\<exists>c \<in> set (cities db). c_id c = pc_city_id r \<and>
               c_name c = pc_city_name r \<and> c_country c = pc_city_country r)) \<and>
         (\<forall>cid \<in> s_city ` set (searches db).
            cid \<notin> pc_city_id ` set (popular_cities db) \<longrightarrow>
            (\<forall>r \<in> set (popular_cities db). total_searches_of db cid \<le> pc_total_searches r))"
proof -
  let ?G = "map (city_summary db) (searched_cities db)"
  let ?S = "sort_key by_total ?G"
  let ?R = "\<lambda>a b. pc_total_searches b \<le> pc_total_searches a"
  note P = popular_cities_sorted[OF ok]
  have ids: "set (searched_cities db) = s_city ` set (searches db)"
    by (simp add: searched_cities_def)
  have len: "length (popular_cities db) = min 10 (card (s_city ` set (searches db)))"
    by (simp add: P searched_cities_def length_remdups_card_conv min.commute)
  have idG: "map pc_city_id ?G = searched_cities db"
    by (simp add: city_summary_fields(1) comp_def)
  have "distinct (map pc_city_id ?G)" by (simp only: idG) (simp add: searched_cities_def)
  then have "distinct ?G \<and> inj_on pc_city_id (set ?G)" by (simp only: distinct_map)
  then have "distinct (map pc_city_id ?S)" by (simp add: distinct_map)
  then have "distinct (take 10 (map pc_city_id ?S))" by (rule distinct_take)
  then have dist: "distinct (map pc_city_id (popular_cities db))" by (simp only: P take_map)
  have sortedS: "sorted_wrt ?R ?S" by (rule sort_key_desc)
  then have srt: "sorted_wrt ?R (popular_cities db)" by (simp only: P sorted_wrt_take)
  have inG: "r \<in> set ?G" if "r \<in> set (popular_cities db)" for r
    using that set_take_subset[of 10 ?S] by (auto simp: P)
  have rows: "pc_city_id r \<in> s_city ` set (searches db) \<and>
            pc_total_searches r = total_searches_of db (pc_city_id r) \<and>
            pc_unique_users r = unique_users_of db (pc_city_id r) \<and>
            (\<exists>c \<in> set (cities db). c_id c = pc_city_id r \<and>
               c_name c = pc_city_name r \<and> c_country c = pc_city_country r)"
    if "r \<in> set (popular_cities db)" for r
  proof -
    from inG[OF that] obtain cid where cid: "cid \<in> set (searched_cities db)"
      and r: "r = city_summary db cid" by auto
    from city_summary_city[OF ok cid] cid show ?thesis
      by (simp add: r city_summary_fields ids)
  qed
  have top: "total_searches_of db cid \<le> pc_total_searches r"
    if c: "cid \<in> s_city ` set (searches db)"
      and n: "cid \<notin> pc_city_id ` set (popular_cities db)"
      and r: "r \<in> set (popular_cities db)" for cid r
  proof -
    let ?x = "city_summary db cid"
    from c have "?x \<in> set ?S" by (simp add: ids)
    then have "?x \<in> set (take 10 ?S @ drop 10 ?S)" by simp
    moreover have "?x \<notin> set (take 10 ?S)"
    proof
      assume "?x \<in> set (take 10 ?S)"
      then have "pc_city_id ?x \<in> pc_city_id ` set (popular_cities db)"
        by (simp only: P) (rule imageI)
      with n show False by (simp add: city_summary_fields)
    qed
    ultimately have x: "?x \<in> set (drop 10 ?S)" by (simp del: append_take_drop_id)
    from sortedS have "sorted_wrt ?R (take 10 ?S @ drop 10 ?S)" by simp
    then have "\<forall>a \<in> set (take 10 ?S). \<forall>b \<in> set (drop 10 ?S). ?R a b"
      by (simp only: sorted_wrt_append) simp
    with x r have "pc_total_searches ?x \<le> pc_total_searches r" by (simp add: P)
    then show ?thesis by (simp add: city_summary_fields)
  qed
  from len dist srt rows top show ?thesis by blast
qed

lemma store_ok_sample: "store_ok sample_store"
  by (simp add: store_ok_def sample_store_def city_key_def)

lemma popular_cities_sample:
  "popular_cities sample_store =
     [\<lparr>pc_city_name = ''London'', pc_city_country = ''United Kingdom'', pc_city_id = 1,
       pc_total_searches = 7, pc_unique_users = 2\<rparr>,
      \<lparr>pc_city_name = ''Paris'', pc_city_country = ''France'', pc_city_id = 2,
       pc_total_searches = 3, pc_unique_users = 1\<rparr>]"
  by (simp add: popular_cities_def popular_groups_def annotate_def search_city_join_def
      group_key_def sample_store_def Let_def)

theorem popular_cities_top_ten_witness:
  "store_ok sample_store \<and>
   length (popular_cities sample_store) = 2 \<and>
   distinct (map pc_city_id (popular_cities sample_store)) \<and>
   sorted_wrt (\<lambda>a b. pc_total_searches b \<le> pc_total_searches a) (popular_cities sample_store)"
proof -
  have "card (s_city ` set (searches sample_store)) = 2"
    by (simp add: sample_store_def)
  with popular_cities_top_ten[OF store_ok_sample] store_ok_sample show ?thesis
    by simp
qed

end
